theory Spec2Isabelle
  imports Main "HOL-Library.Word" "HOL-Library.Sublist"
begin

chapter \<open>A text-to-speech gateway: WAV encoding and the synthesis handler\<close>

text \<open>
  The development embeds \<^verbatim>\<open>src/server.js\<close>: the function \<^verbatim>\<open>pcmToWav\<close>, the table
  \<^verbatim>\<open>VOICE_CONFIG\<close>, the helper \<^verbatim>\<open>generateTTSWithTimeout\<close> and the handler of
  \<^verbatim>\<open>POST /synthesize\<close>. Console output is left out; every other statement of these
  functions is a part of a definition below.

  JavaScript strings are modelled as \<^typ>\<open>string\<close>, one \<^typ>\<open>char\<close> per byte of the UTF-8
  form. Every string the code searches for is ASCII, so a search on the bytes finds what
  a search on the UTF-16 code units finds.
\<close>

section \<open>Buffers\<close>

type_synonym byte = "8 word"
type_synonym buffer = "byte list"

text \<open>
  The errors the buffer methods of the runtime raise, both a \<^verbatim>\<open>RangeError\<close>: the code
  \<^verbatim>\<open>ERR_OUT_OF_RANGE\<close> with the named argument and the value received, and the code
  \<^verbatim>\<open>ERR_BUFFER_OUT_OF_BOUNDS\<close> for a buffer shorter than the field to write.
\<close>

datatype node_error = ERR_OUT_OF_RANGE string nat | ERR_BUFFER_OUT_OF_BOUNDS

text \<open>
  \<^verbatim>\<open>Buffer.alloc(n)\<close>: \<open>n\<close> zero bytes. The runtime refuses a length above its
  maximal buffer length, which is \<open>2 ^ 53 - 1\<close> in its current versions and at least
  \<open>2 ^ 31 - 1\<close> in older ones. That limit is left out: the buffers of this program
  are decoded from one string and stay below \<open>2 ^ 30\<close> bytes.
\<close>

definition alloc :: "nat \<Rightarrow> buffer" where
  "alloc n = replicate n 0"

text \<open>
  Storing the bytes \<open>src\<close> into \<open>buf\<close> from index \<open>off\<close> on. The buffer keeps its
  length: bytes of \<open>src\<close> that do not fit are dropped, and nothing is stored when \<open>off\<close>
  is not below the length.
\<close>

definition blit :: "byte list \<Rightarrow> nat \<Rightarrow> buffer \<Rightarrow> buffer" where
  "blit src off buf = take off buf @ take (length buf - off) src @ drop (off + length src) buf"

definition utf8 :: "string \<Rightarrow> byte list" where
  "utf8 s = map of_char s"

text \<open>
  \<^verbatim>\<open>buf.write(string, offset)\<close>: the offset may not exceed the length. The strings
  written here are ASCII, one byte for each character.
\<close>

definition Buffer_write :: "string \<Rightarrow> nat \<Rightarrow> buffer \<Rightarrow> node_error + buffer" where
  "Buffer_write s offset buf =
     (if offset > length buf then Inl (ERR_OUT_OF_RANGE ''offset'' offset)
      else Inr (blit (utf8 s) offset buf))"

text \<open>
  The bytes of an unsigned integer, least significant first. A byte store keeps the low
  eight bits of what it is given, which is what \<^term>\<open>of_nat :: nat \<Rightarrow> byte\<close> does.
\<close>

definition le32 :: "nat \<Rightarrow> byte list" where
  "le32 v = [of_nat v, of_nat (v div 2 ^ 8), of_nat (v div 2 ^ 16), of_nat (v div 2 ^ 24)]"

definition le16 :: "nat \<Rightarrow> byte list" where
  "le16 v = [of_nat v, of_nat (v div 2 ^ 8)]"

text \<open>
  \<^verbatim>\<open>buf.writeUInt32LE(value, offset)\<close> and \<^verbatim>\<open>buf.writeUInt16LE(value, offset)\<close>: the value
  is checked against the range of the field first, then the offset against the buffer.
\<close>

definition writeUInt32LE :: "nat \<Rightarrow> nat \<Rightarrow> buffer \<Rightarrow> node_error + buffer" where
  "writeUInt32LE v offset buf =
     (if v > 4294967295 then Inl (ERR_OUT_OF_RANGE ''value'' v)
      else if offset + 4 > length buf
      then Inl (if length buf < 4 then ERR_BUFFER_OUT_OF_BOUNDS else ERR_OUT_OF_RANGE ''offset'' offset)
      else Inr (blit (le32 v) offset buf))"

definition writeUInt16LE :: "nat \<Rightarrow> nat \<Rightarrow> buffer \<Rightarrow> node_error + buffer" where
  "writeUInt16LE v offset buf =
     (if v > 65535 then Inl (ERR_OUT_OF_RANGE ''value'' v)
      else if offset + 2 > length buf
      then Inl (if length buf < 2 then ERR_BUFFER_OUT_OF_BOUNDS else ERR_OUT_OF_RANGE ''offset'' offset)
      else Inr (blit (le16 v) offset buf))"

text \<open>\<^verbatim>\<open>src.copy(target, targetStart)\<close>: copies what fits and never fails.\<close>

definition Buffer_copy :: "buffer \<Rightarrow> nat \<Rightarrow> buffer \<Rightarrow> node_error + buffer" where
  "Buffer_copy src targetStart target = Inr (blit src targetStart target)"

text \<open>
  \<^verbatim>\<open>buf.readUInt32LE(offset)\<close> and \<^verbatim>\<open>buf.readUInt16LE(offset)\<close>, the way a WAV decoder
  reads the size fields. They are used to state what the header declares.
\<close>

definition readUInt32LE :: "buffer \<Rightarrow> nat \<Rightarrow> nat" where
  "readUInt32LE buf offset =
     unat (buf ! offset) + unat (buf ! (offset + 1)) * 2 ^ 8 +
     unat (buf ! (offset + 2)) * 2 ^ 16 + unat (buf ! (offset + 3)) * 2 ^ 24"

definition readUInt16LE :: "buffer \<Rightarrow> nat \<Rightarrow> nat" where
  "readUInt16LE buf offset = unat (buf ! offset) + unat (buf ! (offset + 1)) * 2 ^ 8"

text \<open>
  A sequence of statements that each update one buffer in place: the first error ends
  the sequence, as the exception does.
\<close>

fun statements :: "(buffer \<Rightarrow> node_error + buffer) list \<Rightarrow> buffer \<Rightarrow> node_error + buffer" where
  "statements [] buf = Inr buf"
| "statements (stmt # rest) buf =
     (case stmt buf of Inl e \<Rightarrow> Inl e | Inr buf' \<Rightarrow> statements rest buf')"

section \<open>The encoder \<^verbatim>\<open>pcmToWav\<close>\<close>

text \<open>
  Lines 43 to 73 of \<^verbatim>\<open>pcmToWav\<close>, from the decoded \<^verbatim>\<open>pcmBuffer\<close> to the filled
  \<^verbatim>\<open>wavBuffer\<close>. The division \<^verbatim>\<open>bitsPerSample / 8\<close> is exact.
\<close>

definition pcmToWavBuffer :: "buffer \<Rightarrow> node_error + buffer" where
  "pcmToWavBuffer pcmBuffer =
     (let sampleRate = 24000;
          numChannels = 1;
          bitsPerSample = 16;
          byteRate = sampleRate * numChannels * (bitsPerSample div 8);
          blockAlign = numChannels * (bitsPerSample div 8);
          dataSize = length pcmBuffer;
          headerSize = 44;
          wavBuffer = alloc (headerSize + dataSize)
      in statements
          [Buffer_write ''RIFF'' 0,
           writeUInt32LE (headerSize + dataSize - 8) 4,
           Buffer_write ''WAVE'' 8,
           Buffer_write ''fmt '' 12,
           writeUInt32LE 16 16,
           writeUInt16LE 1 20,
           writeUInt16LE numChannels 22,
           writeUInt32LE sampleRate 24,
           writeUInt32LE byteRate 28,
           writeUInt16LE blockAlign 32,
           writeUInt16LE bitsPerSample 34,
           Buffer_write ''data'' 36,
           writeUInt32LE dataSize 40,
           Buffer_copy pcmBuffer headerSize]
          wavBuffer)"

text \<open>
  What the runtime contributes and the source does not fix: the base64 codec behind
  \<^verbatim>\<open>Buffer.from(s, 'base64')\<close> and \<^verbatim>\<open>buf.toString('base64')\<close>, and the text of the
  message of a runtime error. The theorems hold for every such runtime.
\<close>

record runtime =
  base64_decode :: "string \<Rightarrow> buffer"
  base64_encode :: "buffer \<Rightarrow> string"
  error_message :: "node_error \<Rightarrow> string"

definition pcmToWav :: "runtime \<Rightarrow> string \<Rightarrow> node_error + string" where
  "pcmToWav rt pcmBase64 =
     (let pcmBuffer = base64_decode rt pcmBase64
      in case pcmToWavBuffer pcmBuffer of
           Inl e \<Rightarrow> Inl e
         | Inr wavBuffer \<Rightarrow> Inr (base64_encode rt wavBuffer))"

text \<open>The header the size fields are compared with: 44 bytes, every integer little-endian.\<close>

definition wav_header :: "nat \<Rightarrow> byte list" where
  "wav_header dataSize =
     utf8 ''RIFF'' @ le32 (dataSize + 36) @ utf8 ''WAVE'' @
     utf8 ''fmt '' @ le32 16 @ le16 1 @ le16 1 @ le32 24000 @ le32 48000 @ le16 2 @ le16 16 @
     utf8 ''data'' @ le32 dataSize"

text \<open>The two sizes a produced buffer declares, next to its real length.\<close>

definition declared_sizes :: "buffer \<Rightarrow> nat \<times> nat \<times> nat" where
  "declared_sizes wav = (readUInt32LE wav 4, readUInt32LE wav 40, length wav)"

section \<open>The voice table\<close>

text \<open>
  \<^verbatim>\<open>VOICE_CONFIG\<close>, lines 94 to 105: an object literal of two object literals, with
  strings for keys.
\<close>

definition VOICE_CONFIG :: "(string \<times> (string \<times> string) list) list" where
  "VOICE_CONFIG =
     [(''es-latam'',
         [(''male'', ''Sulafat''), (''female'', ''Achernar''), (''neutral'', ''Aoede'')]),
      (''en'',
         [(''male'', ''Sulafat''), (''female'', ''Vindemiatrix''), (''neutral'', ''Enceladus'')])]"

subsection \<open>Line 173 on the strings of the request\<close>

text \<open>
  The handler does not check \<^verbatim>\<open>contentLanguage\<close> or \<^verbatim>\<open>gender\<close>: line 173 uses
  whatever strings the body holds as property names. The objects of the table are
  object literals, so a read of a property that is not their own goes on to
  \<^verbatim>\<open>Object.prototype\<close>. This subsection follows the two reads of line 173 for every
  pair of strings.

  What a property read can give here: \<^verbatim>\<open>undefined\<close>, \<^verbatim>\<open>null\<close>, a string, a number, a
  built-in function (with its \<^verbatim>\<open>name\<close> and \<^verbatim>\<open>length\<close>), or one of the two prototype
  objects.
\<close>

datatype js_value =
  Undefined | Null | Str string | Num nat | Function string nat
| Object_prototype_value | Function_prototype_value

text \<open>
  A read of \<^verbatim>\<open>caller\<close> or \<^verbatim>\<open>arguments\<close> on a built-in function runs the accessor of
  \<^verbatim>\<open>Function.prototype\<close>, which throws a \<^verbatim>\<open>TypeError\<close>.
\<close>

datatype thrown = TypeError string

text \<open>The function members of \<^verbatim>\<open>Object.prototype\<close> and of \<^verbatim>\<open>Function.prototype\<close>.\<close>

definition Object_prototype_methods :: "(string \<times> js_value) list" where
  "Object_prototype_methods =
     [(''constructor'', Function ''Object'' 1),
      (''hasOwnProperty'', Function ''hasOwnProperty'' 1),
      (''isPrototypeOf'', Function ''isPrototypeOf'' 1),
      (''propertyIsEnumerable'', Function ''propertyIsEnumerable'' 1),
      (''toLocaleString'', Function ''toLocaleString'' 0),
      (''toString'', Function ''toString'' 0),
      (''valueOf'', Function ''valueOf'' 0),
      (''__defineGetter__'', Function ''__defineGetter__'' 2),
      (''__defineSetter__'', Function ''__defineSetter__'' 2),
      (''__lookupGetter__'', Function ''__lookupGetter__'' 1),
      (''__lookupSetter__'', Function ''__lookupSetter__'' 1)]"

definition Function_prototype_methods :: "(string \<times> js_value) list" where
  "Function_prototype_methods =
     [(''apply'', Function ''apply'' 2), (''bind'', Function ''bind'' 1),
      (''call'', Function ''call'' 1), (''toString'', Function ''toString'' 0),
      (''constructor'', Function ''Function'' 1)]"

text \<open>
  A read that reaches \<^verbatim>\<open>Object.prototype\<close>: one of its methods, or for \<^verbatim>\<open>__proto__\<close>
  the prototype \<open>proto\<close> of the object the read started from.
\<close>

definition Object_prototype_read :: "js_value \<Rightarrow> string \<Rightarrow> js_value" where
  "Object_prototype_read proto key =
     (case map_of Object_prototype_methods key of
        Some f \<Rightarrow> f
      | None \<Rightarrow> if key = ''__proto__'' then proto else Undefined)"

text \<open>
  \<^verbatim>\<open>VOICE_CONFIG[contentLanguage]\<close>: nothing, one of the two voice tables, an inherited
  function, or for \<^verbatim>\<open>__proto__\<close> the object \<^verbatim>\<open>Object.prototype\<close> itself.
\<close>

datatype table_member =
  Missing | Voice_table "(string \<times> string) list" | Inherited_function string nat
| Inherited_prototype

definition VOICE_CONFIG_read :: "string \<Rightarrow> table_member" where
  "VOICE_CONFIG_read contentLanguage =
     (case map_of VOICE_CONFIG contentLanguage of
        Some voices \<Rightarrow> Voice_table voices
      | None \<Rightarrow>
          (case Object_prototype_read Object_prototype_value contentLanguage of
             Function name len \<Rightarrow> Inherited_function name len
           | Object_prototype_value \<Rightarrow> Inherited_prototype
           | _ \<Rightarrow> Missing))"

text \<open>
  \<^verbatim>\<open>?.[gender]\<close> on what the first read gave. A function has its own \<^verbatim>\<open>name\<close> and
  \<^verbatim>\<open>length\<close>; the constructor \<^verbatim>\<open>Object\<close> has also \<^verbatim>\<open>prototype\<close> and its static
  methods, whose list differs between versions of the runtime and is the parameter
  \<open>statics\<close> (names with lengths). Then come the members of \<^verbatim>\<open>Function.prototype\<close>
  and of \<^verbatim>\<open>Object.prototype\<close>. The prototype of \<^verbatim>\<open>Object.prototype\<close> is \<^verbatim>\<open>null\<close>.
\<close>

fun member_read :: "(string \<times> nat) list \<Rightarrow> table_member \<Rightarrow> string \<Rightarrow> thrown + js_value" where
  "member_read statics Missing key = Inr Undefined"
| "member_read statics (Voice_table voices) key =
     Inr (case map_of voices key of
            Some v \<Rightarrow> Str v
          | None \<Rightarrow> Object_prototype_read Object_prototype_value key)"
| "member_read statics Inherited_prototype key = Inr (Object_prototype_read Null key)"
| "member_read statics (Inherited_function name len) key =
     (if key = ''name'' then Inr (Str name)
      else if key = ''length'' then Inr (Num len)
      else if name = ''Object'' \<and> key = ''prototype'' then Inr Object_prototype_value
      else case (if name = ''Object'' then map_of statics key else None) of
             Some n \<Rightarrow> Inr (Function key n)
           | None \<Rightarrow>
               if key = ''caller'' \<or> key = ''arguments'' then Inl (TypeError key)
               else case map_of Function_prototype_methods key of
                      Some f \<Rightarrow> Inr f
                    | None \<Rightarrow> Inr (Object_prototype_read Function_prototype_value key))"

text \<open>What \<^verbatim>\<open>||\<close> keeps: every value but \<^verbatim>\<open>undefined\<close>, \<^verbatim>\<open>null\<close>, the empty string and 0.\<close>

fun truthy :: "js_value \<Rightarrow> bool" where
  "truthy Undefined = False"
| "truthy Null = False"
| "truthy (Str s) = (s \<noteq> [])"
| "truthy (Num n) = (n \<noteq> 0)"
| "truthy v = True"

text \<open>
  Line 173, \<^verbatim>\<open>VOICE_CONFIG[contentLanguage]?.[gender] || 'Aoede'\<close>, for the strings of
  the request: the value of \<^verbatim>\<open>voiceName\<close>, or the error thrown.
\<close>

definition voiceName_of :: "(string \<times> nat) list \<Rightarrow> string \<Rightarrow> string \<Rightarrow> thrown + js_value" where
  "voiceName_of statics contentLanguage gender =
     (case member_read statics (VOICE_CONFIG_read contentLanguage) gender of
        Inl e \<Rightarrow> Inl e
      | Inr v \<Rightarrow> Inr (if truthy v then v else Str ''Aoede''))"

subsection \<open>Line 173 on the documented genders\<close>

text \<open>
  The interface documents three values of \<^verbatim>\<open>gender\<close>, and the model of the handler
  below takes the field over these three. None of the inherited members that the first
  read can reach has a property of one of these names, so for them the second read
  finds a voice of the table or nothing: \<open>VOICE_CONFIG_get\<close> gives the table, the empty
  table for an inherited member, and \<open>None\<close> for \<^verbatim>\<open>undefined\<close>. That \<open>voiceName\<close> is
  \<open>voiceName_of\<close> on these three strings is the lemma \<open>voiceName_documented\<close>.
\<close>

datatype gender = male | female | neutral

fun gender_key :: "gender \<Rightarrow> string" where
  "gender_key male = ''male''"
| "gender_key female = ''female''"
| "gender_key neutral = ''neutral''"

definition VOICE_CONFIG_get :: "string \<Rightarrow> (string \<times> string) list option" where
  "VOICE_CONFIG_get contentLanguage =
     (case VOICE_CONFIG_read contentLanguage of
        Missing \<Rightarrow> None
      | Voice_table voices \<Rightarrow> Some voices
      | _ \<Rightarrow> Some [])"

definition voiceName :: "string \<Rightarrow> gender \<Rightarrow> string" where
  "voiceName contentLanguage gender =
     (case VOICE_CONFIG_get contentLanguage of
        None \<Rightarrow> ''Aoede''
      | Some voices \<Rightarrow>
          (case map_of voices (gender_key gender) of
             None \<Rightarrow> ''Aoede''
           | Some v \<Rightarrow> if v = [] then ''Aoede'' else v))"

section \<open>The request to the model and its answers\<close>

definition TTS_MODEL :: string where
  "TTS_MODEL = ''gemini-2.5-pro-preview-tts''"

definition REQUEST_TIMEOUT_MS :: nat where
  "REQUEST_TIMEOUT_MS = 300000"

text \<open>
  The argument of \<^verbatim>\<open>ai.models.generateContent\<close>, lines 135 to 148: the model, the one
  text part of \<^verbatim>\<open>contents\<close>, and in \<^verbatim>\<open>config\<close> the response modalities and the name of
  the prebuilt voice. The object literal has no other member.
\<close>

record generate_params =
  param_model :: string
  param_text :: string
  param_responseModalities :: "string list"
  param_voiceName :: string

text \<open>
  The part of an answer the handler reads. A missing member is \<open>None\<close>; a part without
  \<^verbatim>\<open>inlineData\<close> stands for any part of another kind.
\<close>

datatype inline_data = InlineData (data: "string option") (mimeType: "string option")

datatype part = Part (inlineData: "inline_data option")

datatype content = Content (parts: "part list option")

datatype candidate = Candidate (content: "content option")

datatype generate_response = GenerateResponse (candidates: "candidate list option")

text \<open>
  How one call ends: the promise resolves with an answer, rejects with an error (of
  which the handler reads the message only), or never settles.
\<close>

datatype outcome = Resolved generate_response | Rejected string | Pending

text \<open>
  The service behind \<^verbatim>\<open>ai\<close>: what the call number \<open>n\<close> of one request, made with
  the given argument, ends with.
\<close>

type_synonym genai = "nat \<Rightarrow> generate_params \<Rightarrow> outcome"

definition request_params :: "string \<Rightarrow> string \<Rightarrow> generate_params" where
  "request_params fullText voice =
     \<lparr>param_model = TTS_MODEL, param_text = fullText,
      param_responseModalities = [''AUDIO''], param_voiceName = voice\<rparr>"

text \<open>What the handler does to the outside, in order: calls of the model and waits.\<close>

datatype event = GenerateContent generate_params | Delay nat

text \<open>
  \<^verbatim>\<open>generateTTSWithTimeout\<close>, lines 130 to 156: the call it makes, with the argument
  of lines 135 to 148, and how the call ends. The timer calls \<^verbatim>\<open>controller.abort()\<close>
  after \<open>timeoutMs\<close>, but the signal of the controller is not handed to
  \<^verbatim>\<open>generateContent\<close>, so the timer settles nothing: the function ends the way the call
  ends, and not at all when the call never settles.
\<close>

definition generateTTSWithTimeout ::
  "genai \<Rightarrow> nat \<Rightarrow> string \<Rightarrow> string \<Rightarrow> nat \<Rightarrow> outcome \<times> event list" where
  "generateTTSWithTimeout ai n fullText voice timeoutMs =
     (let params = request_params fullText voice
      in (ai n params, [GenerateContent params]))"

section \<open>The handler of \<^verbatim>\<open>POST /synthesize\<close>\<close>

text \<open>
  \<^verbatim>\<open>req.body\<close> after the JSON middleware: an object whose three members may be
  missing. The text and the language are strings, the gender is one of the three
  documented values; what line 173 does with another string for the gender is in the
  section on the voice table. A request that the middleware leaves without a body
  object is not modelled.
\<close>

record synthesize_body =
  req_text :: "string option"
  req_gender :: "gender option"
  req_contentLanguage :: "string option"

datatype res_body =
  Error_body string
| Synthesis_body string string string string

text \<open>
  The members of \<^const>\<open>Synthesis_body\<close> are \<^verbatim>\<open>audioContent\<close>, \<^verbatim>\<open>mimeType\<close>,
  \<^verbatim>\<open>voice\<close> and \<^verbatim>\<open>language\<close>. A response is a status with a JSON body.
\<close>

datatype http_response = Json nat res_body

text \<open>\<^verbatim>\<open>s.includes(needle)\<close>: \<open>needle\<close> occurs in \<open>s\<close> as a block.\<close>

fun String_includes :: "string \<Rightarrow> string \<Rightarrow> bool" where
  "String_includes [] needle = (needle = [])"
| "String_includes (c # cs) needle = (prefix needle (c # cs) \<or> String_includes cs needle)"

text \<open>Line 178: the style phrase. The letter before \<^verbatim>\<open>lido\<close> is U+00E1, two bytes.\<close>

definition stylePrompt :: "string \<Rightarrow> string" where
  "stylePrompt contentLanguage =
     (if contentLanguage = ''es-latam''
      then ''Habla en un susurro suave y cercano, con un ritmo muy lento, pausas prolongadas entre frases y un tono c''
           @ [CHR 0xC3, CHR 0xA1] @ ''lido tipo ASMR:''
      else ''Speak in a soft whisper, very slow rhythm, long pauses between phrases, and a warm tone like ASMR:'')"

text \<open>
  Lines 193 to 201: the first candidate, its parts, the first part with
  \<^verbatim>\<open>inlineData\<close>, and the data of that part. \<open>Inl\<close> carries the message of the error
  thrown; \<open>Inr\<close> the data and the declared MIME type. An empty array of parts is truthy,
  an empty string of data is not.
\<close>

definition find_audio :: "generate_response \<Rightarrow> string + (string \<times> string option)" where
  "find_audio response =
     (let candidate = (case candidates response of Some (c # _) \<Rightarrow> Some c | _ \<Rightarrow> None)
      in case Option.bind (Option.bind candidate content) parts of
           None \<Rightarrow> Inl ''No audio content in response''
         | Some ps \<Rightarrow>
             (let audioPart = find (\<lambda>part. inlineData part \<noteq> None) ps
              in case Option.bind (Option.bind audioPart inlineData) data of
                   None \<Rightarrow> Inl ''No audio data found in response''
                 | Some d \<Rightarrow>
                     if d = [] then Inl ''No audio data found in response''
                     else Inr (d, Option.bind (Option.bind audioPart inlineData) mimeType)))"

text \<open>
  Lines 203 to 218: the default for a missing or empty MIME type, and the conversion of
  raw PCM. An error of \<^const>\<open>pcmToWav\<close> is thrown inside the \<^verbatim>\<open>try\<close> block.
\<close>

definition encode_audio :: "runtime \<Rightarrow> string \<Rightarrow> string option \<Rightarrow> string + (string \<times> string)" where
  "encode_audio rt rawAudioBase64 declared =
     (let rawMimeType = (case declared of
                           None \<Rightarrow> ''audio/L16;rate=24000''
                         | Some m \<Rightarrow> if m = [] then ''audio/L16;rate=24000'' else m)
      in if String_includes rawMimeType ''L16'' \<or> String_includes rawMimeType ''pcm''
         then (case pcmToWav rt rawAudioBase64 of
                 Inl e \<Rightarrow> Inl (error_message rt e)
               | Inr audioBase64 \<Rightarrow> Inr (audioBase64, ''audio/wav''))
         else Inr (rawAudioBase64, rawMimeType))"

text \<open>
  The rest of the \<^verbatim>\<open>try\<close> block of one attempt, lines 192 to 226, after the call has
  ended: \<open>None\<close> when the call never settles, \<open>Some (Inl message)\<close> when the block throws,
  \<open>Some (Inr body)\<close> when it answers.
\<close>

definition after_call :: "runtime \<Rightarrow> string \<Rightarrow> string \<Rightarrow> outcome \<Rightarrow> (string + res_body) option" where
  "after_call rt voice contentLanguage out =
     (case out of
        Pending \<Rightarrow> None
      | Rejected message \<Rightarrow> Some (Inl message)
      | Resolved response \<Rightarrow>
          Some (case find_audio response of
                  Inl message \<Rightarrow> Inl message
                | Inr (rawAudioBase64, declared) \<Rightarrow>
                    (case encode_audio rt rawAudioBase64 declared of
                       Inl message \<Rightarrow> Inl message
                     | Inr (audioBase64, mimeType') \<Rightarrow>
                         Inr (Synthesis_body audioBase64 mimeType' voice contentLanguage))))"

text \<open>The \<^verbatim>\<open>try\<close> block of one attempt, lines 187 to 226: the call and the rest.\<close>

definition try_block ::
  "runtime \<Rightarrow> genai \<Rightarrow> nat \<Rightarrow> string \<Rightarrow> string \<Rightarrow> string \<Rightarrow> (string + res_body) option" where
  "try_block rt ai attempt fullText voice contentLanguage =
     after_call rt voice contentLanguage
       (fst (generateTTSWithTimeout ai attempt fullText voice REQUEST_TIMEOUT_MS))"

text \<open>
  The loop of lines 186 to 236 and the \<^verbatim>\<open>throw lastError\<close> after it. Each round makes
  the one call of \<^verbatim>\<open>generateTTSWithTimeout\<close> and goes on with how it ended. The loop
  ends with the body of the answer, with the error thrown after the last attempt, or
  not at all when a call never settles.
\<close>

datatype loop_exit = Returned res_body | Thrown "string option" | Unsettled

function attempts ::
  "runtime \<Rightarrow> genai \<Rightarrow> string \<Rightarrow> string \<Rightarrow> string \<Rightarrow> nat \<Rightarrow> string option \<Rightarrow> event list
   \<Rightarrow> loop_exit \<times> event list" where
  "attempts rt ai fullText voice contentLanguage attempt lastError trace =
     (if attempt \<le> 2 then
        (case generateTTSWithTimeout ai attempt fullText voice REQUEST_TIMEOUT_MS of
           (out, made) \<Rightarrow>
             (let called = trace @ made
              in case after_call rt voice contentLanguage out of
                   None \<Rightarrow> (Unsettled, called)
                 | Some (Inr body) \<Rightarrow> (Returned body, called)
                 | Some (Inl message) \<Rightarrow>
                     attempts rt ai fullText voice contentLanguage (attempt + 1) (Some message)
                       (if attempt < 2 then called @ [Delay 1000] else called)))
      else (Thrown lastError, trace))"
  by pat_completeness auto
termination
  by (relation "measure (\<lambda>(rt, ai, fullText, voice, contentLanguage, attempt, lastError, trace).
                  3 - attempt)") auto

text \<open>Lines 246 to 251: the message for the user.\<close>

definition userMessage :: "string \<Rightarrow> string" where
  "userMessage message =
     (if String_includes message ''fetch failed'' \<or> String_includes message ''ECONNRESET''
      then ''Connection to Gemini API failed. Please try again.''
      else if String_includes message ''timeout'' \<or> String_includes message ''aborted''
      then ''Request timed out. The text might be too long.''
      else message)"

text \<open>
  The handler, lines 163 to 255: the response, if one is sent, and the calls and waits
  made. The first two definitions are the defaults of the destructuring in line 167.
  After the loop \<^verbatim>\<open>lastError\<close> is the error of the second attempt; the case
  \<open>Thrown None\<close> is there for \<^const>\<open>attempts\<close> to be total and is never reached from
  attempt 1. No response is sent when a call never settles.
\<close>

definition body_gender :: "synthesize_body \<Rightarrow> gender" where
  "body_gender body = (case req_gender body of None \<Rightarrow> neutral | Some g \<Rightarrow> g)"

definition body_contentLanguage :: "synthesize_body \<Rightarrow> string" where
  "body_contentLanguage body =
     (case req_contentLanguage body of None \<Rightarrow> ''es-latam'' | Some l \<Rightarrow> l)"

definition synthesize :: "runtime \<Rightarrow> genai \<Rightarrow> synthesize_body \<Rightarrow> http_response option \<times> event list" where
  "synthesize rt ai body =
     (let gender = body_gender body;
          contentLanguage = body_contentLanguage body
      in case req_text body of
           None \<Rightarrow> (Some (Json 400 (Error_body ''Text is required'')), [])
         | Some text' \<Rightarrow>
             if text' = [] then (Some (Json 400 (Error_body ''Text is required'')), [])
             else
               (let voice = voiceName contentLanguage gender;
                    fullText = stylePrompt contentLanguage @ '' '' @ text'
                in case attempts rt ai fullText voice contentLanguage 1 None [] of
                     (Returned answer, trace) \<Rightarrow> (Some (Json 200 answer), trace)
                   | (Thrown (Some message), trace) \<Rightarrow>
                       (Some (Json 500 (Error_body (userMessage message))), trace)
                   | (Thrown None, trace) \<Rightarrow> (None, trace)
                   | (Unsettled, trace) \<Rightarrow> (None, trace)))"

text \<open>The number of calls of the model in a trace, and the number of waits.\<close>

definition calls :: "event list \<Rightarrow> nat" where
  "calls trace = length (filter (\<lambda>e. case e of GenerateContent p \<Rightarrow> True | Delay ms \<Rightarrow> False) trace)"

definition delays :: "event list \<Rightarrow> nat" where
  "delays trace = length (filter (\<lambda>e. case e of GenerateContent p \<Rightarrow> False | Delay ms \<Rightarrow> True) trace)"

text \<open>
  An attempt fails when the call rejects, whatever the error, or when the \<^verbatim>\<open>try\<close>
  block throws on the answer. An attempt whose call never settles does not fail and
  does not succeed: the \<^verbatim>\<open>await\<close> of line 190 does not return.
\<close>

definition attempt_fails :: "runtime \<Rightarrow> outcome \<Rightarrow> bool" where
  "attempt_fails rt out =
     (case out of
        Pending \<Rightarrow> False
      | Rejected message \<Rightarrow> True
      | Resolved response \<Rightarrow>
          (case find_audio response of
             Inl message \<Rightarrow> True
           | Inr (rawAudioBase64, declared) \<Rightarrow> isl (encode_audio rt rawAudioBase64 declared)))"

definition attempt_succeeds :: "runtime \<Rightarrow> outcome \<Rightarrow> bool" where
  "attempt_succeeds rt out =
     (case out of
        Pending \<Rightarrow> False
      | Rejected message \<Rightarrow> False
      | Resolved response \<Rightarrow>
          (case find_audio response of
             Inl message \<Rightarrow> False
           | Inr (rawAudioBase64, declared) \<Rightarrow> \<not> isl (encode_audio rt rawAudioBase64 declared)))"

section \<open>A runtime to run the handler on examples\<close>

text \<open>
  The base64 code of RFC 4648 for the two codec members. The decoder reads the way the
  runtime does: it stops at the first \<^verbatim>\<open>=\<close>, takes \<^verbatim>\<open>-\<close> and \<^verbatim>\<open>_\<close> for the values 62
  and 63, and skips every other character outside the alphabet.
\<close>

definition base64_alphabet :: string where
  "base64_alphabet = ''ABCDEFGHIJKLMNOPQRSTUVWXYZabcdefghijklmnopqrstuvwxyz0123456789+/''"

definition sextets :: "nat \<Rightarrow> string" where
  "sextets n = map (\<lambda>i. base64_alphabet ! (n div 64 ^ i mod 64)) [3, 2, 1, 0]"

fun rfc4648_encode :: "buffer \<Rightarrow> string" where
  "rfc4648_encode (a # b # c # rest) =
     sextets (unat a * 65536 + unat b * 256 + unat c) @ rfc4648_encode rest"
| "rfc4648_encode [a, b] = take 3 (sextets (unat a * 65536 + unat b * 256)) @ ''=''"
| "rfc4648_encode [a] = take 2 (sextets (unat a * 65536)) @ ''==''"
| "rfc4648_encode [] = []"

fun index_of :: "char \<Rightarrow> string \<Rightarrow> nat option" where
  "index_of c [] = None"
| "index_of c (x # xs) = (if c = x then Some 0 else map_option Suc (index_of c xs))"

fun decode_sextets :: "nat list \<Rightarrow> buffer" where
  "decode_sextets (a # b # c # d # rest) =
     (let n = a * 262144 + b * 4096 + c * 64 + d
      in [of_nat (n div 65536), of_nat (n div 256), of_nat n]) @ decode_sextets rest"
| "decode_sextets [a, b, c] =
     (let n = a * 262144 + b * 4096 + c * 64
      in [of_nat (n div 65536), of_nat (n div 256)])"
| "decode_sextets [a, b] = [of_nat ((a * 262144 + b * 4096) div 65536)]"
| "decode_sextets [a] = []"
| "decode_sextets [] = []"

definition sextet_of :: "char \<Rightarrow> nat option" where
  "sextet_of c =
     (if c = CHR ''-'' then Some 62 else if c = CHR ''_'' then Some 63
      else index_of c base64_alphabet)"

definition rfc4648_decode :: "string \<Rightarrow> buffer" where
  "rfc4648_decode s =
     decode_sextets (List.map_filter sextet_of (takeWhile (\<lambda>c. c \<noteq> CHR ''='') s))"

definition example_runtime :: runtime where
  "example_runtime =
     \<lparr>base64_decode = rfc4648_decode, base64_encode = rfc4648_encode,
      error_message = (\<lambda>e. case e of
                          ERR_OUT_OF_RANGE name v \<Rightarrow> ''The value of '' @ name @ '' is out of range''
                        | ERR_BUFFER_OUT_OF_BOUNDS \<Rightarrow> ''Attempt to access memory outside buffer bounds'')\<rparr>"

text \<open>
  Answers of the model: one part with three bytes of raw PCM, one part with encoded
  audio, and one whose first part with \<^verbatim>\<open>inlineData\<close> has no data while a later part
  and a later candidate have.
\<close>

definition answer_with :: "part list \<Rightarrow> generate_response" where
  "answer_with ps = GenerateResponse (Some [Candidate (Some (Content (Some ps)))])"

definition pcm_answer :: generate_response where
  "pcm_answer =
     answer_with [Part None, Part (Some (InlineData (Some ''AQID'') (Some ''audio/L16;codec=pcm;rate=24000'')))]"

definition mp3_answer :: generate_response where
  "mp3_answer = answer_with [Part (Some (InlineData (Some ''SUQz'') (Some ''audio/mpeg'')))]"

definition hollow_answer :: generate_response where
  "hollow_answer =
     GenerateResponse (Some
       [Candidate (Some (Content (Some
          [Part None,
           Part (Some (InlineData None (Some ''audio/mpeg''))),
           Part (Some (InlineData (Some ''SUQz'') (Some ''audio/mpeg'')))]))),
        Candidate (Some (Content (Some
          [Part (Some (InlineData (Some ''SUQz'') (Some ''audio/mpeg'')))])))])"

text \<open>
  A service that ends its calls as a list says, call \<open>n\<close> with entry \<open>n\<close>, and never
  settles a call past the list.
\<close>

definition script :: "outcome list \<Rightarrow> genai" where
  "script outcomes n p =
     (if 0 < n \<and> n \<le> length outcomes then outcomes ! (n - 1) else Pending)"

definition example_body :: synthesize_body where
  "example_body = \<lparr>req_text = Some ''Hola'', req_gender = Some female, req_contentLanguage = None\<rparr>"

section \<open>Lemmas on buffers\<close>

lemma blit_fresh:
  "length pre = off \<Longrightarrow> length src \<le> n \<Longrightarrow>
   blit src off (pre @ replicate n 0) = (pre @ src) @ replicate (n - length src) 0"
  by (simp add: blit_def)

lemma length_le32 [simp]: "length (le32 v) = 4"
  by (simp add: le32_def)

lemma length_le16 [simp]: "length (le16 v) = 2"
  by (simp add: le16_def)

lemma length_utf8 [simp]: "length (utf8 s) = length s"
  by (simp add: utf8_def)

lemma length_wav_header [simp]: "length (wav_header n) = 44"
  by (simp add: wav_header_def)

lemma Buffer_write_fresh:
  "length pre = off \<Longrightarrow> length s \<le> n \<Longrightarrow>
   Buffer_write s off (pre @ replicate n 0) = Inr ((pre @ utf8 s) @ replicate (n - length s) 0)"
  by (simp add: Buffer_write_def blit_fresh)

lemma writeUInt32LE_fresh:
  "length pre = off \<Longrightarrow> 4 \<le> n \<Longrightarrow> v \<le> 4294967295 \<Longrightarrow>
   writeUInt32LE v off (pre @ replicate n 0) = Inr ((pre @ le32 v) @ replicate (n - 4) 0)"
  by (simp add: writeUInt32LE_def blit_fresh)

lemma writeUInt16LE_fresh:
  "length pre = off \<Longrightarrow> 2 \<le> n \<Longrightarrow> v \<le> 65535 \<Longrightarrow>
   writeUInt16LE v off (pre @ replicate n 0) = Inr ((pre @ le16 v) @ replicate (n - 2) 0)"
  by (simp add: writeUInt16LE_def blit_fresh)

text \<open>
  The writes of \<^const>\<open>pcmToWavBuffer\<close> go through the buffer from left to right, each one
  starting where the one before ended, so each meets a buffer of the form
  \<open>pre @ replicate n 0\<close>.
\<close>

lemma pcmToWavBuffer_closed:
  assumes "length pcm + 36 \<le> 4294967295"
  shows "pcmToWavBuffer pcm = Inr (wav_header (length pcm) @ pcm)"
  using assms
  unfolding pcmToWavBuffer_def Let_def alloc_def statements.simps
  apply (subst Buffer_write_fresh [where pre="[]", simplified], simp, simp)
  apply (simp only: sum.case)
  apply (subst writeUInt32LE_fresh, simp, simp, simp)
  apply (simp only: sum.case)
  apply (subst Buffer_write_fresh, simp, simp)
  apply (simp only: sum.case)
  apply (subst Buffer_write_fresh, simp, simp)
  apply (simp only: sum.case)
  apply (subst writeUInt32LE_fresh, simp, simp, simp)
  apply (simp only: sum.case)
  apply (subst writeUInt16LE_fresh, simp, simp, simp)
  apply (simp only: sum.case)
  apply (subst writeUInt16LE_fresh, simp, simp, simp)
  apply (simp only: sum.case)
  apply (subst writeUInt32LE_fresh, simp, simp, simp)
  apply (simp only: sum.case)
  apply (subst writeUInt32LE_fresh, simp, simp, simp)
  apply (simp only: sum.case)
  apply (subst writeUInt16LE_fresh, simp, simp, simp)
  apply (simp only: sum.case)
  apply (subst writeUInt16LE_fresh, simp, simp, simp)
  apply (simp only: sum.case)
  apply (subst Buffer_write_fresh, simp, simp)
  apply (simp only: sum.case)
  apply (subst writeUInt32LE_fresh, simp, simp, simp)
  apply (simp only: sum.case)
  apply (simp add: Buffer_copy_def blit_def wav_header_def add.commute)
  apply (simp add: numeral_2_eq_2)
  done

lemma pcmToWavBuffer_too_long:
  assumes "length pcm + 36 > 4294967295"
  shows "pcmToWavBuffer pcm = Inl (ERR_OUT_OF_RANGE ''value'' (length pcm + 36))"
  using assms
  unfolding pcmToWavBuffer_def Let_def alloc_def statements.simps
  apply (subst Buffer_write_fresh [where pre="[]", simplified], simp, simp)
  apply (simp only: sum.case)
  apply (simp add: writeUInt32LE_def add.commute)
  done

lemma pcmToWavBuffer_Inr:
  assumes "pcmToWavBuffer pcm = Inr wav"
  shows "length pcm + 36 \<le> 4294967295 \<and> wav = wav_header (length pcm) @ pcm"
proof (cases "length pcm + 36 \<le> 4294967295")
  case True
  with assms pcmToWavBuffer_closed [OF True] show ?thesis by simp
next
  case False
  then have "pcmToWavBuffer pcm = Inl (ERR_OUT_OF_RANGE ''value'' (length pcm + 36))"
    by (simp add: pcmToWavBuffer_too_long)
  with assms show ?thesis by simp
qed

lemma le32_arith:
  fixes v :: nat
  assumes "v < 2 ^ 32"
  shows "v mod 256 + (v div 256 mod 256) * 256 + (v div 65536 mod 256) * 65536
        + (v div 16777216 mod 256) * 16777216 = v"
proof -
  have a: "v div 16777216 mod 256 = v div 16777216"
    using assms by (simp add: less_mult_imp_div_less)
  have b: "v div 65536 = v div 16777216 * 256 + v div 65536 mod 256"
    using div_mult_mod_eq [of "v div 65536" 256] by (simp add: div_mult2_eq [symmetric])
  have c: "v div 256 = v div 65536 * 256 + v div 256 mod 256"
    using div_mult_mod_eq [of "v div 256" 256] by (simp add: div_mult2_eq [symmetric])
  have d: "v = v div 256 * 256 + v mod 256"
    by simp
  show ?thesis using a b c d by linarith
qed

lemma le16_arith:
  fixes v :: nat
  assumes "v < 2 ^ 16"
  shows "v mod 256 + (v div 256 mod 256) * 256 = v"
proof -
  have "v div 256 mod 256 = v div 256"
    using assms by (simp add: less_mult_imp_div_less)
  then show ?thesis by simp
qed

lemma readUInt32LE_le32:
  assumes "v < 2 ^ 32" and "length pre = off"
  shows "readUInt32LE (pre @ le32 v @ rest) off = v"
proof -
  have "v div 16777216 < 256"
    using assms(1) by (simp add: less_mult_imp_div_less)
  then show ?thesis
    using assms(2) le32_arith [OF assms(1)]
    by (simp add: readUInt32LE_def le32_def nth_append unat_of_nat)
qed

lemma readUInt16LE_le16:
  assumes "v < 2 ^ 16" and "length pre = off"
  shows "readUInt16LE (pre @ le16 v @ rest) off = v"
proof -
  have "v div 256 < 256"
    using assms(1) by (simp add: less_mult_imp_div_less)
  then show ?thesis
    using assms(2) le16_arith [OF assms(1)]
    by (simp add: readUInt16LE_def le16_def nth_append unat_of_nat)
qed

lemma read32_at:
  "wav = pre @ le32 v @ rest \<Longrightarrow> length pre = off \<Longrightarrow> v < 2 ^ 32 \<Longrightarrow> readUInt32LE wav off = v"
  by (simp add: readUInt32LE_le32)

lemma read16_at:
  "wav = pre @ le16 v @ rest \<Longrightarrow> length pre = off \<Longrightarrow> v < 2 ^ 16 \<Longrightarrow> readUInt16LE wav off = v"
  by (simp add: readUInt16LE_le16)

lemma header_total:
  assumes "n + 36 \<le> 4294967295"
  shows "readUInt32LE (wav_header n @ pcm) 4 = n + 36"
proof (rule read32_at)
  show "wav_header n @ pcm = take 4 (wav_header n) @ le32 (n + 36) @ (drop 8 (wav_header n) @ pcm)"
    by (simp add: wav_header_def)
  show "length (take 4 (wav_header n)) = 4" by simp
  show "n + 36 < (2::nat) ^ 32" using assms by simp
qed

lemma header_fmt_size:
  "readUInt32LE (wav_header n @ pcm) 16 = 16"
proof (rule read32_at)
  show "wav_header n @ pcm = take 16 (wav_header n) @ le32 (16) @ (drop 20 (wav_header n) @ pcm)"
    by (simp add: wav_header_def)
  show "length (take 16 (wav_header n)) = 16" by simp
  show "16 < (2::nat) ^ 32" by simp
qed

lemma header_sampleRate:
  "readUInt32LE (wav_header n @ pcm) 24 = 24000"
proof (rule read32_at)
  show "wav_header n @ pcm = take 24 (wav_header n) @ le32 (24000) @ (drop 28 (wav_header n) @ pcm)"
    by (simp add: wav_header_def)
  show "length (take 24 (wav_header n)) = 24" by simp
  show "24000 < (2::nat) ^ 32" by simp
qed

lemma header_byteRate:
  "readUInt32LE (wav_header n @ pcm) 28 = 48000"
proof (rule read32_at)
  show "wav_header n @ pcm = take 28 (wav_header n) @ le32 (48000) @ (drop 32 (wav_header n) @ pcm)"
    by (simp add: wav_header_def)
  show "length (take 28 (wav_header n)) = 28" by simp
  show "48000 < (2::nat) ^ 32" by simp
qed

lemma header_data_size:
  assumes "n + 36 \<le> 4294967295"
  shows "readUInt32LE (wav_header n @ pcm) 40 = n"
proof (rule read32_at)
  show "wav_header n @ pcm = take 40 (wav_header n) @ le32 (n) @ (drop 44 (wav_header n) @ pcm)"
    by (simp add: wav_header_def)
  show "length (take 40 (wav_header n)) = 40" by simp
  show "n < (2::nat) ^ 32" using assms by simp
qed

lemma header_format:
  "readUInt16LE (wav_header n @ pcm) 20 = 1"
proof (rule read16_at)
  show "wav_header n @ pcm = take 20 (wav_header n) @ le16 1 @ (drop 22 (wav_header n) @ pcm)"
    by (simp add: wav_header_def)
  show "length (take 20 (wav_header n)) = 20" by simp
  show "1 < (2::nat) ^ 16" by simp
qed

lemma header_channels:
  "readUInt16LE (wav_header n @ pcm) 22 = 1"
proof (rule read16_at)
  show "wav_header n @ pcm = take 22 (wav_header n) @ le16 1 @ (drop 24 (wav_header n) @ pcm)"
    by (simp add: wav_header_def)
  show "length (take 22 (wav_header n)) = 22" by simp
  show "1 < (2::nat) ^ 16" by simp
qed

lemma header_blockAlign:
  "readUInt16LE (wav_header n @ pcm) 32 = 2"
proof (rule read16_at)
  show "wav_header n @ pcm = take 32 (wav_header n) @ le16 2 @ (drop 34 (wav_header n) @ pcm)"
    by (simp add: wav_header_def)
  show "length (take 32 (wav_header n)) = 32" by simp
  show "2 < (2::nat) ^ 16" by simp
qed

lemma header_bits:
  "readUInt16LE (wav_header n @ pcm) 34 = 16"
proof (rule read16_at)
  show "wav_header n @ pcm = take 34 (wav_header n) @ le16 16 @ (drop 36 (wav_header n) @ pcm)"
    by (simp add: wav_header_def)
  show "length (take 34 (wav_header n)) = 34" by simp
  show "16 < (2::nat) ^ 16" by simp
qed

section \<open>Lemmas on the handler\<close>

text \<open>The loop makes the attempts 1 and 2 and stops.\<close>

declare attempts.simps [simp del]

lemma attempts_done:
  "2 < attempt \<Longrightarrow>
   attempts rt ai fullText voice contentLanguage attempt lastError trace = (Thrown lastError, trace)"
  by (subst attempts.simps) simp

lemma attempts_unfold:
  "attempt \<le> 2 \<Longrightarrow>
   attempts rt ai fullText voice contentLanguage attempt lastError trace =
     (case try_block rt ai attempt fullText voice contentLanguage of
        None \<Rightarrow> (Unsettled, trace @ [GenerateContent (request_params fullText voice)])
      | Some (Inr body) \<Rightarrow> (Returned body, trace @ [GenerateContent (request_params fullText voice)])
      | Some (Inl message) \<Rightarrow>
          attempts rt ai fullText voice contentLanguage (Suc attempt) (Some message)
            (if attempt < 2
             then trace @ [GenerateContent (request_params fullText voice), Delay 1000]
             else trace @ [GenerateContent (request_params fullText voice)]))"
  by (subst attempts.simps)
    (simp add: try_block_def generateTTSWithTimeout_def Let_def split: option.split sum.split)

lemma synthesize_no_text:
  "req_text body = None \<or> req_text body = Some [] \<Longrightarrow>
   synthesize rt ai body = (Some (Json 400 (Error_body ''Text is required'')), [])"
  by (auto simp: synthesize_def)

lemma synthesize_text:
  assumes "req_text body = Some text'" and "text' \<noteq> []"
  defines "lang \<equiv> body_contentLanguage body"
  defines "voice \<equiv> voiceName lang (body_gender body)"
  defines "fullText \<equiv> stylePrompt lang @ '' '' @ text'"
  defines "call \<equiv> GenerateContent (request_params fullText voice)"
  shows "synthesize rt ai body =
     (case try_block rt ai 1 fullText voice lang of
        None \<Rightarrow> (None, [call])
      | Some (Inr answer) \<Rightarrow> (Some (Json 200 answer), [call])
      | Some (Inl message1) \<Rightarrow>
          (case try_block rt ai 2 fullText voice lang of
             None \<Rightarrow> (None, [call, Delay 1000, call])
           | Some (Inr answer) \<Rightarrow> (Some (Json 200 answer), [call, Delay 1000, call])
           | Some (Inl message2) \<Rightarrow>
               (Some (Json 500 (Error_body (userMessage message2))), [call, Delay 1000, call])))"
  using assms(1,2)
  unfolding lang_def voice_def fullText_def call_def
  by (simp add: synthesize_def Let_def attempts_unfold attempts_done
        del: One_nat_def split: option.split sum.split)

lemma try_block_outcome:
  "try_block rt ai n fullText voice lang =
     (case ai n (request_params fullText voice) of
        Pending \<Rightarrow> None
      | Rejected message \<Rightarrow> Some (Inl message)
      | Resolved response \<Rightarrow>
          Some (case find_audio response of
                  Inl message \<Rightarrow> Inl message
                | Inr (raw, declared) \<Rightarrow>
                    (case encode_audio rt raw declared of
                       Inl message \<Rightarrow> Inl message
                     | Inr (audio, mime) \<Rightarrow> Inr (Synthesis_body audio mime voice lang))))"
  by (simp add: try_block_def after_call_def generateTTSWithTimeout_def Let_def)

lemma attempt_fails_iff:
  "attempt_fails rt (ai n (request_params fullText voice)) \<longleftrightarrow>
   (\<exists>message. try_block rt ai n fullText voice lang = Some (Inl message))"
  by (auto simp: attempt_fails_def try_block_outcome split: outcome.splits sum.splits prod.splits)

lemma attempt_succeeds_iff:
  "attempt_succeeds rt (ai n (request_params fullText voice)) \<longleftrightarrow>
   (\<exists>answer. try_block rt ai n fullText voice lang = Some (Inr answer))"
  by (auto simp: attempt_succeeds_def try_block_outcome split: outcome.splits sum.splits prod.splits)

text \<open>Counting the events of a trace.\<close>

lemma calls_simps [simp]:
  "calls [] = 0"
  "calls (GenerateContent p # es) = Suc (calls es)"
  "calls (Delay ms # es) = calls es"
  by (simp_all add: calls_def)

lemma delays_simps [simp]:
  "delays [] = 0"
  "delays (GenerateContent p # es) = delays es"
  "delays (Delay ms # es) = Suc (delays es)"
  by (simp_all add: delays_def)

text \<open>\<^const>\<open>String_includes\<close> is the search for a block of characters.\<close>

lemma String_includes_iff: "String_includes s needle \<longleftrightarrow> (\<exists>pre post. s = pre @ needle @ post)"
proof (induction s)
  case Nil
  then show ?case by auto
next
  case (Cons c cs)
  show ?case
  proof
    assume "String_includes (c # cs) needle"
    then consider "prefix needle (c # cs)" | "String_includes cs needle" by auto
    then show "\<exists>pre post. c # cs = pre @ needle @ post"
    proof cases
      case 1
      then obtain post where "c # cs = needle @ post" by (auto simp: prefix_def)
      then have "c # cs = [] @ needle @ post" by simp
      then show ?thesis by blast
    next
      case 2
      with Cons.IH obtain pre post where "cs = pre @ needle @ post" by blast
      then have "c # cs = (c # pre) @ needle @ post" by simp
      then show ?thesis by blast
    qed
  next
    assume "\<exists>pre post. c # cs = pre @ needle @ post"
    then obtain pre post where eq: "c # cs = pre @ needle @ post" by blast
    show "String_includes (c # cs) needle"
    proof (cases pre)
      case Nil
      with eq have "prefix needle (c # cs)" by (simp add: prefix_def)
      then show ?thesis by simp
    next
      case (Cons a pre')
      with eq have "cs = pre' @ needle @ post" by simp
      with Cons.IH have "String_includes cs needle" by blast
      then show ?thesis by simp
    qed
  qed
qed

text \<open>The two branches of the conversion, and the default of the MIME type.\<close>

lemma encode_audio_pcm:
  assumes "String_includes m ''L16'' \<or> String_includes m ''pcm''"
    and "length (base64_decode rt raw) + 36 \<le> 4294967295"
  shows "encode_audio rt raw (Some m) =
           Inr (base64_encode rt (wav_header (length (base64_decode rt raw)) @ base64_decode rt raw),
                ''audio/wav'')"
proof -
  have "m \<noteq> []" using assms(1) by auto
  then show ?thesis
    using assms
    by (simp add: encode_audio_def pcmToWav_def pcmToWavBuffer_closed)
qed

lemma encode_audio_default:
  "encode_audio rt raw None = encode_audio rt raw (Some ''audio/L16;rate=24000'')"
  "encode_audio rt raw (Some []) = encode_audio rt raw (Some ''audio/L16;rate=24000'')"
  by (simp_all add: encode_audio_def)

lemma default_is_pcm: "String_includes ''audio/L16;rate=24000'' ''L16''"
  by simp

lemma encode_audio_other:
  assumes "m \<noteq> []" and "\<not> String_includes m ''L16''" and "\<not> String_includes m ''pcm''"
  shows "encode_audio rt raw (Some m) = Inr (raw, m)"
  using assms by (simp add: encode_audio_def)

lemma try_block_resolved:
  assumes "ai n (request_params fullText voice) = Resolved response"
    and "find_audio response = Inr (raw, declared)"
    and "encode_audio rt raw declared = Inr (audio, mime)"
  shows "try_block rt ai n fullText voice lang = Some (Inr (Synthesis_body audio mime voice lang))"
  using assms by (simp add: try_block_outcome)

lemma find_first_inline:
  assumes "\<forall>p \<in> set pre. inlineData p = None"
  shows "find (\<lambda>part. inlineData part \<noteq> None) (pre @ Part (Some idata) # post) = Some (Part (Some idata))"
  using assms by (induction pre) simp_all

lemma first_failure_retries:
  assumes "req_text body = Some text'" and "text' \<noteq> []"
    and "attempt_fails rt (ai 1 (request_params (stylePrompt (body_contentLanguage body) @ '' '' @ text')
                 (voiceName (body_contentLanguage body) (body_gender body))))"
  shows "snd (synthesize rt ai body) =
     [GenerateContent (request_params (stylePrompt (body_contentLanguage body) @ '' '' @ text')
                 (voiceName (body_contentLanguage body) (body_gender body))),
      Delay 1000,
      GenerateContent (request_params (stylePrompt (body_contentLanguage body) @ '' '' @ text')
                 (voiceName (body_contentLanguage body) (body_gender body)))]"
  using assms(3)
  unfolding attempt_fails_iff [where lang = "body_contentLanguage body"]
  by (auto simp: synthesize_text [OF assms(1,2)] split: option.split sum.split)

text \<open>
  The voice on the documented genders is the voice of line 173 on their strings,
  whatever the language. The static methods of \<^verbatim>\<open>Object\<close> have other names.
\<close>

lemma Object_prototype_read_gender [simp]:
  "Object_prototype_read proto (gender_key g) = Undefined"
  by (cases g) (simp_all add: Object_prototype_read_def Object_prototype_methods_def)

lemma member_read_function_gender:
  "map_of statics (gender_key g) = None \<Longrightarrow>
   member_read statics (Inherited_function name len) (gender_key g) = Inr Undefined"
  by (cases g)
    (simp_all add: Function_prototype_methods_def Object_prototype_read_def
       Object_prototype_methods_def)

lemma voiceName_documented:
  assumes "map_of statics (gender_key g) = None"
  shows "voiceName_of statics lang (gender_key g) = Inr (Str (voiceName lang g))"
proof (cases "VOICE_CONFIG_read lang")
  case Missing
  then show ?thesis
    by (simp add: voiceName_of_def voiceName_def VOICE_CONFIG_get_def)
next
  case (Voice_table voices)
  then show ?thesis
    by (simp add: voiceName_of_def voiceName_def VOICE_CONFIG_get_def split: option.split)
next
  case (Inherited_function name len)
  then show ?thesis
    by (simp add: voiceName_of_def voiceName_def VOICE_CONFIG_get_def
          member_read_function_gender [OF assms] del: member_read.simps)
next
  case Inherited_prototype
  then show ?thesis
    by (simp add: voiceName_of_def voiceName_def VOICE_CONFIG_get_def)
qed

text \<open>The first read of line 173, by the language.\<close>

lemma VOICE_CONFIG_read_simps:
  "VOICE_CONFIG_read ''es-latam'' =
     Voice_table [(''male'', ''Sulafat''), (''female'', ''Achernar''), (''neutral'', ''Aoede'')]"
  "VOICE_CONFIG_read ''en'' =
     Voice_table [(''male'', ''Sulafat''), (''female'', ''Vindemiatrix''), (''neutral'', ''Enceladus'')]"
  "VOICE_CONFIG_read ''constructor'' = Inherited_function ''Object'' 1"
  "VOICE_CONFIG_read ''__proto__'' = Inherited_prototype"
  "VOICE_CONFIG_read ''toString'' = Inherited_function ''toString'' 0"
  "VOICE_CONFIG_read ''valueOf'' = Inherited_function ''valueOf'' 0"
  by (simp_all add: VOICE_CONFIG_read_def VOICE_CONFIG_def Object_prototype_read_def
        Object_prototype_methods_def)

lemma VOICE_CONFIG_read_unknown:
  assumes "lang \<notin> {''es-latam'', ''en''}"
    and "lang \<notin> {''constructor'', ''__proto__'', ''hasOwnProperty'', ''isPrototypeOf'',
                   ''propertyIsEnumerable'', ''toLocaleString'', ''toString'', ''valueOf'',
                   ''__defineGetter__'', ''__defineSetter__'', ''__lookupGetter__'',
                   ''__lookupSetter__''}"
  shows "VOICE_CONFIG_read lang = Missing"
proof -
  from assms(1) have "map_of VOICE_CONFIG lang = None"
    by (simp add: VOICE_CONFIG_def)
  moreover from assms(2) have "Object_prototype_read Object_prototype_value lang = Undefined"
    by (simp add: Object_prototype_read_def Object_prototype_methods_def)
  ultimately show ?thesis
    by (simp add: VOICE_CONFIG_read_def)
qed

lemma voiceName_unknown:
  assumes "lang \<noteq> ''es-latam''" and "lang \<noteq> ''en''"
  shows "voiceName lang g = ''Aoede''"
proof -
  from assms have "map_of VOICE_CONFIG lang = None"
    by (simp add: VOICE_CONFIG_def)
  then have "VOICE_CONFIG_get lang = None \<or> VOICE_CONFIG_get lang = Some []"
    by (simp add: VOICE_CONFIG_get_def VOICE_CONFIG_read_def split: js_value.split)
  then show ?thesis
    by (auto simp: voiceName_def)
qed

text \<open>The example runtime, body, service and answers, evaluated.\<close>

lemma example_runtime_codec [simp]:
  "base64_decode example_runtime = rfc4648_decode"
  "base64_encode example_runtime = rfc4648_encode"
  by (simp_all add: example_runtime_def)

lemma decode_AQID: "rfc4648_decode ''AQID'' = [1, 2, 3]"
  by (simp add: rfc4648_decode_def sextet_of_def base64_alphabet_def List.map_filter_simps)

lemma example_body_simps [simp]:
  "req_text example_body = Some ''Hola''"
  "body_contentLanguage example_body = ''es-latam''"
  "body_gender example_body = female"
  by (simp_all add: example_body_def body_contentLanguage_def body_gender_def)

lemma example_body_language [simp]: "req_contentLanguage example_body = None"
  by (simp add: example_body_def)

lemma script_simps [simp]:
  "script (a # outs) (Suc 0) p = a"
  "script (a # b # outs) 2 p = b"
  "script (a # b # outs) (Suc (Suc 0)) p = b"
  "script [] n p = Pending"
  by (auto simp: script_def)

lemma find_audio_examples [simp]:
  "find_audio pcm_answer = Inr (''AQID'', Some ''audio/L16;codec=pcm;rate=24000'')"
  "find_audio mp3_answer = Inr (''SUQz'', Some ''audio/mpeg'')"
  "find_audio hollow_answer = Inl ''No audio data found in response''"
  by (simp_all add: find_audio_def pcm_answer_def mp3_answer_def hollow_answer_def answer_with_def)

section \<open>The encoder: claims\<close>

text \<open>
  The size fields hold 32 bits, so \<^const>\<open>pcmToWavBuffer\<close> answers for a buffer of at
  most \<open>4294967259\<close> bytes and raises the range error of \<^const>\<open>writeUInt32LE\<close> for a
  longer one (\<open>pcmToWavBuffer_too_long\<close>). The buffer that \<^const>\<open>pcmToWav\<close> encodes is
  decoded from one JavaScript string, whose length the engine keeps below \<open>2 ^ 30\<close>,
  so every buffer that reaches the encoder is within the bound.
\<close>

text \<open>
  Claim C1. For every PCM buffer of length \<open>L\<close>, odd lengths included, the encoder
  produces a buffer of length \<open>L + 44\<close> whose bytes from offset 44 on are the input
  bytes, whose little-endian 32-bit field at offset 40 is \<open>L\<close> and whose little-endian
  32-bit field at offset 4 is \<open>L + 36\<close>. \<^const>\<open>pcmToWav\<close> returns the base64 form of
  that buffer for every string the runtime decodes to the PCM buffer.
\<close>

theorem pcmToWav_layout:
  assumes "length pcm + 36 \<le> 4294967295"
  shows "\<exists>wav. pcmToWavBuffer pcm = Inr wav \<and>
           (\<forall>rt pcmBase64. base64_decode rt pcmBase64 = pcm \<longrightarrow>
              pcmToWav rt pcmBase64 = Inr (base64_encode rt wav)) \<and>
           length wav = length pcm + 44 \<and>
           drop 44 wav = pcm \<and> (\<forall>i < length pcm. wav ! (44 + i) = pcm ! i) \<and>
           readUInt32LE wav 40 = length pcm \<and> readUInt32LE wav 4 = length pcm + 36"
proof (intro exI conjI)
  show wav: "pcmToWavBuffer pcm = Inr (wav_header (length pcm) @ pcm)"
    using assms by (rule pcmToWavBuffer_closed)
  show "\<forall>rt pcmBase64. base64_decode rt pcmBase64 = pcm \<longrightarrow>
          pcmToWav rt pcmBase64 = Inr (base64_encode rt (wav_header (length pcm) @ pcm))"
    by (simp add: pcmToWav_def wav)
  show "length (wav_header (length pcm) @ pcm) = length pcm + 44"
    by simp
  show "drop 44 (wav_header (length pcm) @ pcm) = pcm"
    by simp
  show "\<forall>i < length pcm. (wav_header (length pcm) @ pcm) ! (44 + i) = pcm ! i"
    by (simp add: nth_append)
  show "readUInt32LE (wav_header (length pcm) @ pcm) 40 = length pcm"
    using assms by (rule header_data_size)
  show "readUInt32LE (wav_header (length pcm) @ pcm) 4 = length pcm + 36"
    using assms by (rule header_total)
qed

text \<open>
  The theorem at the three bytes \<open>[1, 2, 3]\<close>, an odd length, which the example runtime
  decodes from \<^verbatim>\<open>AQID\<close>.
\<close>

theorem pcmToWav_layout_witness:
  "\<exists>wav. pcmToWavBuffer [1, 2, 3] = Inr wav \<and>
      pcmToWav example_runtime ''AQID'' = Inr (rfc4648_encode wav) \<and>
      length wav = 47 \<and> drop 44 wav = [1, 2, 3] \<and>
      readUInt32LE wav 40 = 3 \<and> readUInt32LE wav 4 = 39"
proof -
  have "length [1, 2, 3 :: byte] + 36 \<le> 4294967295"
    by simp
  from pcmToWav_layout [OF this] obtain wav where
    "pcmToWavBuffer [1, 2, 3] = Inr wav"
    "\<forall>rt pcmBase64. base64_decode rt pcmBase64 = [1, 2, 3] \<longrightarrow>
        pcmToWav rt pcmBase64 = Inr (base64_encode rt wav)"
    "length wav = length [1, 2, 3 :: byte] + 44" "drop 44 wav = [1, 2, 3]"
    "readUInt32LE wav 40 = length [1, 2, 3 :: byte]"
    "readUInt32LE wav 4 = length [1, 2, 3 :: byte] + 36"
    by blast
  then show ?thesis
    by (intro exI [of _ wav]) (simp add: decode_AQID)
qed

text \<open>
  Claim C8, as stated: the total chunk size field equals the length of the whole output
  buffer. For the two PCM bytes \<open>[1, 2]\<close> the field at offset 4 declares 38, the field
  at offset 40 declares 2, and the buffer is 46 bytes long.
\<close>

theorem total_size_counterexample:
  "map_sum id declared_sizes (pcmToWavBuffer [1, 2]) = Inr (38, 2, 46)"
proof -
  have "pcmToWavBuffer [1, 2] = Inr (wav_header 2 @ [1, 2])"
    using pcmToWavBuffer_closed [of "[1, 2]"] by (simp add: numeral_2_eq_2)
  then show ?thesis
    using header_total [of 2 "[1, 2]"] header_data_size [of 2 "[1, 2]"]
    by (simp add: declared_sizes_def)
qed

text \<open>
  Claim C8, amended. For every buffer the encoder produces, the total chunk size field
  is the length of the whole buffer less the 8 bytes of the chunk tag and of the field
  itself, the data chunk size field is the length of the PCM region, which is all of
  the buffer after the 44 bytes of the header, and every integer field of the header
  is little-endian.
\<close>

theorem wav_declared_sizes:
  assumes "pcmToWavBuffer pcm = Inr wav"
  shows "readUInt32LE wav 4 + 8 = length wav \<and>
         readUInt32LE wav 40 = length pcm \<and> drop 44 wav = pcm \<and>
         take 44 wav = wav_header (length pcm) \<and>
         readUInt32LE wav 16 = 16 \<and> readUInt16LE wav 20 = 1 \<and> readUInt16LE wav 22 = 1 \<and>
         readUInt32LE wav 24 = 24000 \<and> readUInt32LE wav 28 = 48000 \<and>
         readUInt16LE wav 32 = 2 \<and> readUInt16LE wav 34 = 16"
proof -
  from pcmToWavBuffer_Inr [OF assms]
  have bound: "length pcm + 36 \<le> 4294967295" and wav: "wav = wav_header (length pcm) @ pcm"
    by simp_all
  show ?thesis
    unfolding wav
    using header_total [OF bound, of pcm] header_data_size [OF bound, of pcm]
    by (simp add: header_fmt_size header_format header_channels header_sampleRate
          header_byteRate header_blockAlign header_bits)
qed

text \<open>The theorem at the buffer produced for the two bytes \<open>[1, 2]\<close>.\<close>

theorem wav_declared_sizes_witness:
  "pcmToWavBuffer [1, 2] = Inr (wav_header 2 @ [1, 2]) \<and>
   readUInt32LE (wav_header 2 @ [1, 2]) 4 + 8 = 46 \<and>
   readUInt32LE (wav_header 2 @ [1, 2]) 40 = 2"
proof -
  have h: "pcmToWavBuffer [1, 2] = Inr (wav_header 2 @ [1, 2])"
    using pcmToWavBuffer_closed [of "[1, 2]"] by (simp add: numeral_2_eq_2)
  note w = wav_declared_sizes [OF h]
  from w have "readUInt32LE (wav_header 2 @ [1, 2]) 4 + 8 = length (wav_header 2 @ [1, 2 :: byte])"
    by (rule conjunct1)
  moreover from w have "readUInt32LE (wav_header 2 @ [1, 2]) 40 = length [1, 2 :: byte]"
    by (elim conjE)
  ultimately show ?thesis
    using h by simp
qed

section \<open>The handler: claims\<close>

text \<open>
  Claim C2. The voice is resolved from the language and the gender: for \<^verbatim>\<open>es-latam\<close>,
  male gives Sulafat, female gives Achernar, neutral or a missing gender gives Aoede;
  for \<^verbatim>\<open>en\<close>, female gives Vindemiatrix; and for every language that is not in the
  table the voice is the fallback Aoede, whatever the gender.

  Line 173 does not do the last: the language \<^verbatim>\<open>constructor\<close> is not in the table, and
  with the gender \<^verbatim>\<open>name\<close> the voice is \<^verbatim>\<open>Object\<close>, the name of the function that the
  table inherits under that key. The theorem states this, then what holds of the claim:
  the four voices of the table; the fallback for every gender when the language is
  neither in the table nor the name of an inherited member; and the fallback for every
  language that is not in the table when the gender is one of the three documented
  values or missing, which is the voice the model of the handler uses. It ends with
  other reads through inherited members: a number, an object or a function for the
  voice, an error thrown, and the fallback where the member read is 0 or \<^verbatim>\<open>null\<close>.
\<close>

theorem voice_of_inherited_member:
  "voiceName_of statics ''constructor'' ''name'' = Inr (Str ''Object'') \<and>
   map_of VOICE_CONFIG ''constructor'' = None \<and>
   voiceName_of statics ''es-latam'' ''male'' = Inr (Str ''Sulafat'') \<and>
   voiceName_of statics ''es-latam'' ''female'' = Inr (Str ''Achernar'') \<and>
   voiceName_of statics ''es-latam'' ''neutral'' = Inr (Str ''Aoede'') \<and>
   voiceName_of statics ''en'' ''female'' = Inr (Str ''Vindemiatrix'') \<and>
   (\<forall>lang gender.
      lang \<notin> {''es-latam'', ''en''} \<and>
      lang \<notin> {''constructor'', ''__proto__'', ''hasOwnProperty'', ''isPrototypeOf'',
               ''propertyIsEnumerable'', ''toLocaleString'', ''toString'', ''valueOf'',
               ''__defineGetter__'', ''__defineSetter__'', ''__lookupGetter__'',
               ''__lookupSetter__''} \<longrightarrow>
      voiceName_of statics lang gender = Inr (Str ''Aoede'')) \<and>
   (\<forall>lang g. map_of statics (gender_key g) = None \<longrightarrow>
      voiceName_of statics lang (gender_key g) = Inr (Str (voiceName lang g))) \<and>
   (\<forall>lang g. lang \<noteq> ''es-latam'' \<and> lang \<noteq> ''en'' \<longrightarrow> voiceName lang g = ''Aoede'') \<and>
   (\<forall>body. req_gender body = None \<longrightarrow> body_gender body = neutral) \<and>
   voiceName_of statics ''constructor'' ''length'' = Inr (Num 1) \<and>
   voiceName_of statics ''constructor'' ''prototype'' = Inr Object_prototype_value \<and>
   voiceName_of statics ''toString'' ''length'' = Inr (Str ''Aoede'') \<and>
   voiceName_of statics ''toString'' ''caller'' = Inl (TypeError ''caller'') \<and>
   voiceName_of statics ''valueOf'' ''call'' = Inr (Function ''call'' 1) \<and>
   voiceName_of statics ''__proto__'' ''constructor'' = Inr (Function ''Object'' 1) \<and>
   voiceName_of statics ''__proto__'' ''__proto__'' = Inr (Str ''Aoede'') \<and>
   voiceName_of statics ''en'' ''__proto__'' = Inr Object_prototype_value"
proof -
  have 1: "voiceName_of statics ''constructor'' ''name'' = Inr (Str ''Object'')"
    by (simp add: voiceName_of_def VOICE_CONFIG_read_simps)
  have 2: "map_of VOICE_CONFIG ''constructor'' = None"
    by (simp add: VOICE_CONFIG_def)
  have 3: "voiceName_of statics ''es-latam'' ''male'' = Inr (Str ''Sulafat'')"
    "voiceName_of statics ''es-latam'' ''female'' = Inr (Str ''Achernar'')"
    "voiceName_of statics ''es-latam'' ''neutral'' = Inr (Str ''Aoede'')"
    "voiceName_of statics ''en'' ''female'' = Inr (Str ''Vindemiatrix'')"
    by (simp_all add: voiceName_of_def VOICE_CONFIG_read_simps)
  have unknown: "voiceName_of statics lang gender = Inr (Str ''Aoede'')"
    if "lang \<notin> {''es-latam'', ''en''}"
      and "lang \<notin> {''constructor'', ''__proto__'', ''hasOwnProperty'', ''isPrototypeOf'',
                     ''propertyIsEnumerable'', ''toLocaleString'', ''toString'', ''valueOf'',
                     ''__defineGetter__'', ''__defineSetter__'', ''__lookupGetter__'',
                     ''__lookupSetter__''}"
    for lang gender
    by (simp add: voiceName_of_def VOICE_CONFIG_read_unknown [OF that])
  have 4: "\<forall>lang gender.
      lang \<notin> {''es-latam'', ''en''} \<and>
      lang \<notin> {''constructor'', ''__proto__'', ''hasOwnProperty'', ''isPrototypeOf'',
               ''propertyIsEnumerable'', ''toLocaleString'', ''toString'', ''valueOf'',
               ''__defineGetter__'', ''__defineSetter__'', ''__lookupGetter__'',
               ''__lookupSetter__''} \<longrightarrow>
      voiceName_of statics lang gender = Inr (Str ''Aoede'')"
    by (intro allI impI, elim conjE, rule unknown, assumption+)
  have 5: "\<forall>lang g. map_of statics (gender_key g) = None \<longrightarrow>
      voiceName_of statics lang (gender_key g) = Inr (Str (voiceName lang g))"
    by (intro allI impI) (rule voiceName_documented)
  have 6: "\<forall>lang g. lang \<noteq> ''es-latam'' \<and> lang \<noteq> ''en'' \<longrightarrow> voiceName lang g = ''Aoede''"
    by (intro allI impI) (elim conjE, rule voiceName_unknown)
  have 7: "\<forall>body. req_gender body = None \<longrightarrow> body_gender body = neutral"
    by (simp add: body_gender_def)
  have 8: "voiceName_of statics ''constructor'' ''length'' = Inr (Num 1)"
    "voiceName_of statics ''constructor'' ''prototype'' = Inr Object_prototype_value"
    "voiceName_of statics ''toString'' ''length'' = Inr (Str ''Aoede'')"
    "voiceName_of statics ''toString'' ''caller'' = Inl (TypeError ''caller'')"
    "voiceName_of statics ''valueOf'' ''call'' = Inr (Function ''call'' 1)"
    by (simp_all add: voiceName_of_def VOICE_CONFIG_read_simps Function_prototype_methods_def)
  have 9: "voiceName_of statics ''__proto__'' ''constructor'' = Inr (Function ''Object'' 1)"
    "voiceName_of statics ''__proto__'' ''__proto__'' = Inr (Str ''Aoede'')"
    "voiceName_of statics ''en'' ''__proto__'' = Inr Object_prototype_value"
    by (simp_all add: voiceName_of_def VOICE_CONFIG_read_simps Object_prototype_read_def
          Object_prototype_methods_def)
  show ?thesis
    by (intro conjI) (rule 1 2 3 4 5 6 7 8 9)+
qed

text \<open>
  The theorem at a language that is neither in the table nor inherited, with the gender
  \<^verbatim>\<open>name\<close>; at the language \<^verbatim>\<open>constructor\<close> with a documented gender, for a runtime
  whose \<^verbatim>\<open>Object\<close> has the static method \<^verbatim>\<open>keys\<close>; and at a body without gender.
\<close>

theorem voice_of_inherited_member_witness:
  "voiceName_of [(''keys'', 1)] ''fr'' ''name'' = Inr (Str ''Aoede'') \<and>
   voiceName_of [(''keys'', 1)] ''constructor'' ''female'' = Inr (Str ''Aoede'') \<and>
   voiceName_of [(''keys'', 1)] ''constructor'' ''name'' = Inr (Str ''Object'') \<and>
   voiceName ''constructor'' female = ''Aoede'' \<and>
   body_gender \<lparr>req_text = Some ''Hola'', req_gender = None, req_contentLanguage = None\<rparr> = neutral"
proof -
  note w = voice_of_inherited_member [of "[(''keys'', 1)]"]
  from w have c: "voiceName_of [(''keys'', 1)] ''constructor'' ''name'' = Inr (Str ''Object'')"
    by (rule conjunct1)
  note rest = w [THEN conjunct2, THEN conjunct2, THEN conjunct2, THEN conjunct2,
                  THEN conjunct2, THEN conjunct2]
  note unknown = rest [THEN conjunct1]
  note documented = rest [THEN conjunct2, THEN conjunct1]
  note fallback = rest [THEN conjunct2, THEN conjunct2, THEN conjunct1]
  note unset = rest [THEN conjunct2, THEN conjunct2, THEN conjunct2, THEN conjunct1]
  from unknown [rule_format, of "''fr''" "''name''"]
  have a: "voiceName_of [(''keys'', 1)] ''fr'' ''name'' = Inr (Str ''Aoede'')"
    by simp
  from fallback [rule_format, of "''constructor''" female]
  have d: "voiceName ''constructor'' female = ''Aoede''"
    by simp
  from documented [rule_format, of female "''constructor''"] d
  have b: "voiceName_of [(''keys'', 1)] ''constructor'' ''female'' = Inr (Str ''Aoede'')"
    by simp
  from unset [rule_format, of "\<lparr>req_text = Some ''Hola'', req_gender = None, req_contentLanguage = None\<rparr>"]
  have e: "body_gender \<lparr>req_text = Some ''Hola'', req_gender = None, req_contentLanguage = None\<rparr> = neutral"
    by simp
  from a b c d e show ?thesis
    by (intro conjI)
qed

text \<open>
  Claim C3. A request whose text is absent or the empty string is answered with status
  400 and an error body, and no call of the model is made; a call is made only when
  the text is not empty.
\<close>

theorem empty_text_rejected:
  "(req_text body = None \<or> req_text body = Some [] \<longrightarrow>
      synthesize rt ai body = (Some (Json 400 (Error_body ''Text is required'')), [])) \<and>
   (calls (snd (synthesize rt ai body)) = 0 \<longleftrightarrow> req_text body = None \<or> req_text body = Some [])"
proof (cases "req_text body = None \<or> req_text body = Some []")
  case True
  then show ?thesis by (simp add: synthesize_no_text)
next
  case False
  then obtain t where nonempty: "req_text body = Some t" "t \<noteq> []" by auto
  have "calls (snd (synthesize rt ai body)) \<noteq> 0"
    by (simp add: synthesize_text [OF nonempty] split: option.split sum.split)
  with False show ?thesis by auto
qed

text \<open>
  The theorem at a body with an empty text, at a body without text, and at the example
  body.
\<close>

theorem empty_text_rejected_witness:
  "synthesize example_runtime (script [Resolved mp3_answer])
     \<lparr>req_text = Some [], req_gender = None, req_contentLanguage = None\<rparr> =
     (Some (Json 400 (Error_body ''Text is required'')), []) \<and>
   synthesize example_runtime (script [Resolved mp3_answer])
     \<lparr>req_text = None, req_gender = None, req_contentLanguage = None\<rparr> =
     (Some (Json 400 (Error_body ''Text is required'')), []) \<and>
   calls (snd (synthesize example_runtime (script [Resolved mp3_answer]) example_body)) \<noteq> 0"
  using
    empty_text_rejected [of "\<lparr>req_text = Some [], req_gender = None, req_contentLanguage = None\<rparr>"
      example_runtime "script [Resolved mp3_answer]"]
    empty_text_rejected [of "\<lparr>req_text = None, req_gender = None, req_contentLanguage = None\<rparr>"
      example_runtime "script [Resolved mp3_answer]"]
    empty_text_rejected [of example_body example_runtime "script [Resolved mp3_answer]"]
  by simp

text \<open>
  Claim C4. For a request with text the handler calls the model at most twice. Every
  failure of an attempt, a rejected call with whatever error or an answer without
  audio, uses up one attempt in the same way. There is one wait of 1000 ms, between
  the first call and the second. A first attempt that succeeds gives status 200 after
  one call; a failure followed by a success gives status 200 after two calls; two
  failures give status 500 after two calls.

  The claim counts a timeout among the failures. The handler has no timeout of its
  own: \<^verbatim>\<open>generateTTSWithTimeout\<close> ends the way the call ends, whatever \<open>timeoutMs\<close> is, and
  a call that never settles is neither a failure nor a success of the attempt. When
  the first call never settles, the handler makes that one call and never answers;
  when the first attempt fails and the second call never settles, it makes the two
  calls and never answers. There is no second attempt in the first case and no status
  500 in either. The theorem states this first, then what holds of the claim.
\<close>

theorem retry_without_deadline:
  assumes "req_text body = Some text'" and "text' \<noteq> []"
  defines "p \<equiv> request_params (stylePrompt (body_contentLanguage body) @ '' '' @ text')
                 (voiceName (body_contentLanguage body) (body_gender body))"
  shows "(ai 1 p = Pending \<longrightarrow> synthesize rt ai body = (None, [GenerateContent p])) \<and>
         (attempt_fails rt (ai 1 p) \<and> ai 2 p = Pending \<longrightarrow>
            synthesize rt ai body = (None, [GenerateContent p, Delay 1000, GenerateContent p])) \<and>
         (\<forall>n fullText voice timeoutMs timeoutMs'.
            generateTTSWithTimeout ai n fullText voice timeoutMs =
            generateTTSWithTimeout ai n fullText voice timeoutMs') \<and>
         \<not> attempt_fails rt Pending \<and> \<not> attempt_succeeds rt Pending \<and>
         calls (snd (synthesize rt ai body)) \<le> 2 \<and>
         delays (snd (synthesize rt ai body)) \<le> 1 \<and>
         (attempt_succeeds rt (ai 1 p) \<longrightarrow>
            (\<exists>answer. synthesize rt ai body = (Some (Json 200 answer), [GenerateContent p]))) \<and>
         (attempt_fails rt (ai 1 p) \<and> attempt_succeeds rt (ai 2 p) \<longrightarrow>
            (\<exists>answer. synthesize rt ai body =
               (Some (Json 200 answer), [GenerateContent p, Delay 1000, GenerateContent p]))) \<and>
         (attempt_fails rt (ai 1 p) \<and> attempt_fails rt (ai 2 p) \<longrightarrow>
            (\<exists>message. synthesize rt ai body =
               (Some (Json 500 (Error_body message)),
                [GenerateContent p, Delay 1000, GenerateContent p]))) \<and>
         (\<forall>message. attempt_fails rt (Rejected message)) \<and>
         (\<forall>response message. find_audio response = Inl message \<longrightarrow>
            attempt_fails rt (Resolved response))"
proof -
  note syn = synthesize_text [OF assms(1,2), of rt ai, folded p_def]
  have pending: "try_block rt ai n fullText voice lang = None"
    if "ai n (request_params fullText voice) = Pending" for n fullText voice lang
    using that by (simp add: try_block_outcome)
  have a: "ai 1 p = Pending \<longrightarrow> synthesize rt ai body = (None, [GenerateContent p])"
    using syn pending [of 1] by (auto simp: p_def)
  have b: "attempt_fails rt (ai 1 p) \<and> ai 2 p = Pending \<longrightarrow>
            synthesize rt ai body = (None, [GenerateContent p, Delay 1000, GenerateContent p])"
    unfolding p_def attempt_fails_iff [where lang = "body_contentLanguage body"]
    using syn pending [of 2] by (auto simp: p_def)
  have c: "\<forall>n fullText voice timeoutMs timeoutMs'.
            generateTTSWithTimeout ai n fullText voice timeoutMs =
            generateTTSWithTimeout ai n fullText voice timeoutMs'"
    by (simp add: generateTTSWithTimeout_def)
  have d: "\<not> attempt_fails rt Pending" "\<not> attempt_succeeds rt Pending"
    by (simp_all add: attempt_fails_def attempt_succeeds_def)
  have 1: "calls (snd (synthesize rt ai body)) \<le> 2"
    by (simp add: syn split: option.split sum.split)
  have 2: "delays (snd (synthesize rt ai body)) \<le> 1"
    by (simp add: syn split: option.split sum.split)
  have 3: "attempt_succeeds rt (ai 1 p) \<longrightarrow>
            (\<exists>answer. synthesize rt ai body = (Some (Json 200 answer), [GenerateContent p]))"
    unfolding p_def attempt_succeeds_iff [where lang = "body_contentLanguage body"]
    using syn by (auto simp: p_def)
  have 4: "attempt_fails rt (ai 1 p) \<and> attempt_succeeds rt (ai 2 p) \<longrightarrow>
            (\<exists>answer. synthesize rt ai body =
               (Some (Json 200 answer), [GenerateContent p, Delay 1000, GenerateContent p]))"
    unfolding p_def attempt_succeeds_iff [where lang = "body_contentLanguage body"]
      attempt_fails_iff [where lang = "body_contentLanguage body"]
    using syn by (auto simp: p_def)
  have 5: "attempt_fails rt (ai 1 p) \<and> attempt_fails rt (ai 2 p) \<longrightarrow>
            (\<exists>message. synthesize rt ai body =
               (Some (Json 500 (Error_body message)),
                [GenerateContent p, Delay 1000, GenerateContent p]))"
    unfolding p_def attempt_fails_iff [where lang = "body_contentLanguage body"]
    using syn by (auto simp: p_def)
  have 6: "\<forall>message. attempt_fails rt (Rejected message)"
    by (simp add: attempt_fails_def)
  have 7: "\<forall>response message. find_audio response = Inl message \<longrightarrow>
            attempt_fails rt (Resolved response)"
    by (simp add: attempt_fails_def)
  from a b c d 1 2 3 4 5 6 7 show ?thesis by blast
qed

text \<open>
  The theorem at a service that settles no call; at one whose first call rejects and
  whose second never settles; at one whose first call rejects and whose second call
  answers with encoded audio; and at one whose second call answers without audio data.
\<close>

theorem retry_without_deadline_witness:
  "synthesize example_runtime (script []) example_body =
     (None,
      [GenerateContent (request_params (stylePrompt ''es-latam'' @ '' '' @ ''Hola'') (voiceName ''es-latam'' female))]) \<and>
   synthesize example_runtime (script [Rejected ''fetch failed'']) example_body =
     (None,
      [GenerateContent (request_params (stylePrompt ''es-latam'' @ '' '' @ ''Hola'') (voiceName ''es-latam'' female)),
       Delay 1000,
       GenerateContent (request_params (stylePrompt ''es-latam'' @ '' '' @ ''Hola'') (voiceName ''es-latam'' female))]) \<and>
   attempt_fails example_runtime (Rejected ''fetch failed'') \<and>
   attempt_succeeds example_runtime (Resolved mp3_answer) \<and>
   (\<exists>answer. synthesize example_runtime (script [Rejected ''fetch failed'', Resolved mp3_answer])
                example_body =
      (Some (Json 200 answer),
       [GenerateContent (request_params (stylePrompt ''es-latam'' @ '' '' @ ''Hola'') (voiceName ''es-latam'' female)),
        Delay 1000,
        GenerateContent (request_params (stylePrompt ''es-latam'' @ '' '' @ ''Hola'') (voiceName ''es-latam'' female))])) \<and>
   (\<exists>message. synthesize example_runtime (script [Rejected ''fetch failed'', Resolved hollow_answer])
                example_body =
      (Some (Json 500 (Error_body message)),
       [GenerateContent (request_params (stylePrompt ''es-latam'' @ '' '' @ ''Hola'') (voiceName ''es-latam'' female)),
        Delay 1000,
        GenerateContent (request_params (stylePrompt ''es-latam'' @ '' '' @ ''Hola'') (voiceName ''es-latam'' female))]))"
proof -
  have f: "attempt_fails example_runtime (Rejected ''fetch failed'')"
    by (simp add: attempt_fails_def)
  have h: "attempt_fails example_runtime (Resolved hollow_answer)"
    by (simp add: attempt_fails_def)
  have s: "attempt_succeeds example_runtime (Resolved mp3_answer)"
    by (simp add: attempt_succeeds_def encode_audio_def)
  have t: "req_text example_body = Some ''Hola''" "''Hola'' \<noteq> []"
    by simp_all
  have never: "script [] n q = Pending" "script [Rejected ''fetch failed''] 2 q = Pending" for n q
    by (auto simp: script_def)
  from retry_without_deadline [OF t, of "script []" example_runtime] never
  have a: "synthesize example_runtime (script []) example_body =
     (None,
      [GenerateContent (request_params (stylePrompt ''es-latam'' @ '' '' @ ''Hola'') (voiceName ''es-latam'' female))])"
    by simp
  from retry_without_deadline [OF t, of "script [Rejected ''fetch failed'']" example_runtime] never f
  have b: "synthesize example_runtime (script [Rejected ''fetch failed'']) example_body =
     (None,
      [GenerateContent (request_params (stylePrompt ''es-latam'' @ '' '' @ ''Hola'') (voiceName ''es-latam'' female)),
       Delay 1000,
       GenerateContent (request_params (stylePrompt ''es-latam'' @ '' '' @ ''Hola'') (voiceName ''es-latam'' female))])"
    by simp
  from retry_without_deadline [OF t, of "script [Rejected ''fetch failed'', Resolved mp3_answer]" example_runtime]
    retry_without_deadline [OF t, of "script [Rejected ''fetch failed'', Resolved hollow_answer]" example_runtime]
    f h s a b
  show ?thesis by simp
qed

text \<open>
  Claim C5, as stated: a declared MIME type that contains neither \<^verbatim>\<open>L16\<close> nor
  \<^verbatim>\<open>pcm\<close> is passed through with the payload unchanged. The empty string is such a
  type, and line 204 replaces it by the default \<^verbatim>\<open>audio/L16;rate=24000\<close>: the payload
  \<^verbatim>\<open>AQID\<close> (the bytes 1, 2, 3) comes back WAV-encoded with the type
  \<^verbatim>\<open>audio/wav\<close>.
\<close>

theorem empty_mime_type_counterexample:
  "find_audio (answer_with [Part (Some (InlineData (Some ''AQID'') (Some [])))]) = Inr (''AQID'', Some []) \<and>
   \<not> String_includes [] ''L16'' \<and> \<not> String_includes [] ''pcm'' \<and>
   synthesize example_runtime
     (script [Resolved (answer_with [Part (Some (InlineData (Some ''AQID'') (Some [])))])]) example_body =
   (Some (Json 200 (Synthesis_body (rfc4648_encode (wav_header 3 @ [1, 2, 3])) ''audio/wav''
            (voiceName ''es-latam'' female) ''es-latam'')),
    [GenerateContent (request_params (stylePrompt ''es-latam'' @ '' '' @ ''Hola'') (voiceName ''es-latam'' female))])"
proof -
  have f: "find_audio (answer_with [Part (Some (InlineData (Some ''AQID'') (Some [])))])
             = Inr (''AQID'', Some [])"
    by (simp add: find_audio_def answer_with_def)
  have e: "encode_audio example_runtime ''AQID'' (Some []) =
             Inr (rfc4648_encode (wav_header 3 @ [1, 2, 3]), ''audio/wav'')"
    using encode_audio_pcm [of "''audio/L16;rate=24000''" example_runtime "''AQID''"]
    by (simp add: encode_audio_default decode_AQID numeral_3_eq_3)
  have t: "req_text example_body = Some ''Hola''" "''Hola'' \<noteq> []"
    by simp_all
  show ?thesis
    by (simp add: synthesize_text [OF t] try_block_outcome f e)
qed

text \<open>
  Claim C5, amended. For an answer whose first inline part has data and a declared MIME
  type: when the type contains \<^verbatim>\<open>L16\<close>, the payload goes through the encoder and the
  returned type is \<^verbatim>\<open>audio/wav\<close>; when the type is not empty and contains neither
  \<^verbatim>\<open>L16\<close> nor \<^verbatim>\<open>pcm\<close>, the payload and the type are returned unchanged.
\<close>

theorem mime_handling:
  assumes "ai n (request_params fullText voice) = Resolved response"
    and "find_audio response = Inr (raw, Some m)"
  shows "(String_includes m ''L16'' \<and> length (base64_decode rt raw) + 36 \<le> 4294967295 \<longrightarrow>
            try_block rt ai n fullText voice lang =
              Some (Inr (Synthesis_body
                (base64_encode rt (wav_header (length (base64_decode rt raw)) @ base64_decode rt raw))
                ''audio/wav'' voice lang))) \<and>
         (m \<noteq> [] \<and> \<not> String_includes m ''L16'' \<and> \<not> String_includes m ''pcm'' \<longrightarrow>
            try_block rt ai n fullText voice lang = Some (Inr (Synthesis_body raw m voice lang)))"
  using assms
  by (auto simp: try_block_resolved encode_audio_pcm encode_audio_other)

text \<open>
  The theorem at an answer with three bytes of raw PCM and at one with encoded audio.
\<close>

theorem mime_handling_witness:
  "try_block example_runtime (script [Resolved pcm_answer]) 1 ''Hola'' ''Aoede'' ''en'' =
     Some (Inr (Synthesis_body (rfc4648_encode (wav_header 3 @ [1, 2, 3])) ''audio/wav'' ''Aoede'' ''en'')) \<and>
   try_block example_runtime (script [Resolved mp3_answer]) 1 ''Hola'' ''Aoede'' ''en'' =
     Some (Inr (Synthesis_body ''SUQz'' ''audio/mpeg'' ''Aoede'' ''en''))"
proof -
  have a: "script [Resolved pcm_answer] 1 (request_params ''Hola'' ''Aoede'') = Resolved pcm_answer"
    and b: "script [Resolved mp3_answer] 1 (request_params ''Hola'' ''Aoede'') = Resolved mp3_answer"
    by simp_all
  from mime_handling [where ai = "script [Resolved pcm_answer]" and n = 1 and rt = example_runtime
        and lang = "''en''", OF a find_audio_examples(1)]
    mime_handling [where ai = "script [Resolved mp3_answer]" and n = 1 and rt = example_runtime
        and lang = "''en''", OF b find_audio_examples(2)]
  show ?thesis
    by (simp add: decode_AQID numeral_3_eq_3)
qed

text \<open>
  Claim C6. When both attempts fail, the body of the status 500 carries the message of
  the second failure, rewritten: the fixed connection message when it contains
  \<^verbatim>\<open>fetch failed\<close> or \<^verbatim>\<open>ECONNRESET\<close>; else the fixed timeout message when it
  contains \<^verbatim>\<open>timeout\<close> or \<^verbatim>\<open>aborted\<close>; else the message itself. The connection
  test comes first, which makes the three cases exclusive.
\<close>

theorem failure_message:
  assumes "req_text body = Some text'" and "text' \<noteq> []"
  defines "lang \<equiv> body_contentLanguage body"
  defines "voice \<equiv> voiceName lang (body_gender body)"
  defines "fullText \<equiv> stylePrompt lang @ '' '' @ text'"
  assumes "try_block rt ai 1 fullText voice lang = Some (Inl message1)"
    and "try_block rt ai 2 fullText voice lang = Some (Inl message2)"
  shows "fst (synthesize rt ai body) = Some (Json 500 (Error_body (userMessage message2))) \<and>
         (String_includes message2 ''fetch failed'' \<or> String_includes message2 ''ECONNRESET'' \<longrightarrow>
            userMessage message2 = ''Connection to Gemini API failed. Please try again.'') \<and>
         (\<not> String_includes message2 ''fetch failed'' \<and> \<not> String_includes message2 ''ECONNRESET'' \<and>
          (String_includes message2 ''timeout'' \<or> String_includes message2 ''aborted'') \<longrightarrow>
            userMessage message2 = ''Request timed out. The text might be too long.'') \<and>
         (\<not> String_includes message2 ''fetch failed'' \<and> \<not> String_includes message2 ''ECONNRESET'' \<and>
          \<not> String_includes message2 ''timeout'' \<and> \<not> String_includes message2 ''aborted'' \<longrightarrow>
            userMessage message2 = message2)"
proof -
  have "synthesize rt ai body =
          (Some (Json 500 (Error_body (userMessage message2))),
           [GenerateContent (request_params fullText voice), Delay 1000,
            GenerateContent (request_params fullText voice)])"
    using synthesize_text [OF assms(1,2), of rt ai] assms(6,7)
    by (simp add: lang_def voice_def fullText_def)
  then show ?thesis
    by (simp add: userMessage_def)
qed

text \<open>
  The theorem at two rejections in either order and at a rejection followed by an
  answer without audio data: the second failure decides the message.
\<close>

theorem failure_message_witness:
  "fst (synthesize example_runtime
          (script [Rejected ''fetch failed'', Rejected ''The operation was aborted'']) example_body) =
     Some (Json 500 (Error_body ''Request timed out. The text might be too long.'')) \<and>
   fst (synthesize example_runtime
          (script [Rejected ''The operation was aborted'', Rejected ''read ECONNRESET'']) example_body) =
     Some (Json 500 (Error_body ''Connection to Gemini API failed. Please try again.'')) \<and>
   fst (synthesize example_runtime
          (script [Rejected ''fetch failed'', Resolved hollow_answer]) example_body) =
     Some (Json 500 (Error_body ''No audio data found in response''))"
proof -
  have t: "req_text example_body = Some ''Hola''" "''Hola'' \<noteq> []"
    by simp_all
  have 1: "try_block example_runtime (script [Rejected a, b]) 1 F V L = Some (Inl a)" for a b F V L
    by (simp add: try_block_outcome)
  have 2: "try_block example_runtime (script [a, Rejected b]) 2 F V L = Some (Inl b)" for a b F V L
    by (simp add: try_block_outcome)
  have 3: "try_block example_runtime (script [a, Resolved hollow_answer]) 2 F V L =
             Some (Inl ''No audio data found in response'')" for a F V L
    by (simp add: try_block_outcome)
  from failure_message [where rt = example_runtime
        and ai = "script [Rejected ''fetch failed'', Rejected ''The operation was aborted'']", OF t 1 2]
    failure_message [where rt = example_runtime
        and ai = "script [Rejected ''The operation was aborted'', Rejected ''read ECONNRESET'']", OF t 1 2]
    failure_message [where rt = example_runtime
        and ai = "script [Rejected ''fetch failed'', Resolved hollow_answer]", OF t 1 3]
  show ?thesis by simp
qed

text \<open>
  Claim C7. For a request with text, the text submitted to the model is the style
  phrase of the language, a space, and the text of the request. There are two phrases:
  one when the language of the request is \<^verbatim>\<open>es-latam\<close> or missing, one for every other
  language. \<^verbatim>\<open>generateTTSWithTimeout\<close> hands the service one argument, made of the
  model, the text it was given, the audio modality and the voice, and nothing else;
  every call of the handler is such a call with that text, and the handler makes at
  least one.
\<close>

theorem style_prefix:
  assumes "req_text body = Some text'" and "text' \<noteq> []"
  defines "phrase \<equiv>
    (if req_contentLanguage body = None \<or> req_contentLanguage body = Some ''es-latam''
     then ''Habla en un susurro suave y cercano, con un ritmo muy lento, pausas prolongadas entre frases y un tono c''
          @ [CHR 0xC3, CHR 0xA1] @ ''lido tipo ASMR:''
     else ''Speak in a soft whisper, very slow rhythm, long pauses between phrases, and a warm tone like ASMR:'')"
  shows "(\<forall>ai n fullText voice timeoutMs.
            generateTTSWithTimeout ai n fullText voice timeoutMs =
              (ai n \<lparr>param_model = ''gemini-2.5-pro-preview-tts'', param_text = fullText,
                     param_responseModalities = [''AUDIO''], param_voiceName = voice\<rparr>,
               [GenerateContent
                  \<lparr>param_model = ''gemini-2.5-pro-preview-tts'', param_text = fullText,
                   param_responseModalities = [''AUDIO''], param_voiceName = voice\<rparr>])) \<and>
         (\<forall>e \<in> set (snd (synthesize rt ai body)).
            e = Delay 1000 \<or>
            e = GenerateContent
                  \<lparr>param_model = ''gemini-2.5-pro-preview-tts'',
                   param_text = phrase @ '' '' @ text',
                   param_responseModalities = [''AUDIO''],
                   param_voiceName = voiceName (body_contentLanguage body) (body_gender body)\<rparr>) \<and>
         1 \<le> calls (snd (synthesize rt ai body)) \<and>
         (\<forall>ai'. (\<forall>n. ai' n \<lparr>param_model = ''gemini-2.5-pro-preview-tts'',
                              param_text = phrase @ '' '' @ text',
                              param_responseModalities = [''AUDIO''],
                              param_voiceName = voiceName (body_contentLanguage body) (body_gender body)\<rparr> =
                       ai n \<lparr>param_model = ''gemini-2.5-pro-preview-tts'',
                             param_text = phrase @ '' '' @ text',
                             param_responseModalities = [''AUDIO''],
                             param_voiceName = voiceName (body_contentLanguage body) (body_gender body)\<rparr>) \<longrightarrow>
            synthesize rt ai' body = synthesize rt ai body)"
proof -
  note syn = synthesize_text [OF assms(1,2)]
  have phrase: "stylePrompt (body_contentLanguage body) = phrase"
    by (auto simp: phrase_def stylePrompt_def body_contentLanguage_def split: option.split)
  have 0: "\<forall>ai n fullText voice timeoutMs.
            generateTTSWithTimeout ai n fullText voice timeoutMs =
              (ai n \<lparr>param_model = ''gemini-2.5-pro-preview-tts'', param_text = fullText,
                     param_responseModalities = [''AUDIO''], param_voiceName = voice\<rparr>,
               [GenerateContent
                  \<lparr>param_model = ''gemini-2.5-pro-preview-tts'', param_text = fullText,
                   param_responseModalities = [''AUDIO''], param_voiceName = voice\<rparr>])"
    by (simp add: generateTTSWithTimeout_def Let_def request_params_def TTS_MODEL_def)
  have 1: "\<forall>e \<in> set (snd (synthesize rt ai body)).
            e = Delay 1000 \<or>
            e = GenerateContent
                  \<lparr>param_model = ''gemini-2.5-pro-preview-tts'',
                   param_text = phrase @ '' '' @ text',
                   param_responseModalities = [''AUDIO''],
                   param_voiceName = voiceName (body_contentLanguage body) (body_gender body)\<rparr>"
    unfolding phrase [symmetric]
    by (simp add: syn request_params_def TTS_MODEL_def split: option.split sum.split)
  have 2: "1 \<le> calls (snd (synthesize rt ai body))"
    by (simp add: syn split: option.split sum.split)
  have 3: "synthesize rt ai' body = synthesize rt ai body"
    if "\<forall>n. ai' n \<lparr>param_model = ''gemini-2.5-pro-preview-tts'',
                     param_text = phrase @ '' '' @ text',
                     param_responseModalities = [''AUDIO''],
                     param_voiceName = voiceName (body_contentLanguage body) (body_gender body)\<rparr> =
              ai n \<lparr>param_model = ''gemini-2.5-pro-preview-tts'',
                    param_text = phrase @ '' '' @ text',
                    param_responseModalities = [''AUDIO''],
                    param_voiceName = voiceName (body_contentLanguage body) (body_gender body)\<rparr>"
    for ai'
  proof -
    from that have "try_block rt ai' n (stylePrompt (body_contentLanguage body) @ '' '' @ text')
                      (voiceName (body_contentLanguage body) (body_gender body)) lang =
                    try_block rt ai n (stylePrompt (body_contentLanguage body) @ '' '' @ text')
                      (voiceName (body_contentLanguage body) (body_gender body)) lang" for n lang
      by (simp add: try_block_outcome request_params_def TTS_MODEL_def phrase)
    then show ?thesis
      by (simp only: syn)
  qed
  from 0 1 2 3 show ?thesis by blast
qed

text \<open>
  The theorem at the example body, which has no language, and at a body with the
  language \<^verbatim>\<open>en\<close>, for a service that rejects once.
\<close>

theorem style_prefix_witness:
  "list_all (\<lambda>e. e = Delay 1000 \<or>
       e = GenerateContent
             \<lparr>param_model = ''gemini-2.5-pro-preview-tts'',
              param_text =
                ''Habla en un susurro suave y cercano, con un ritmo muy lento, pausas prolongadas entre frases y un tono c''
                @ [CHR 0xC3, CHR 0xA1] @ ''lido tipo ASMR: Hola'',
              param_responseModalities = [''AUDIO''],
              param_voiceName = voiceName ''es-latam'' female\<rparr>)
     (snd (synthesize example_runtime (script [Rejected ''fetch failed'', Resolved mp3_answer]) example_body)) \<and>
   1 \<le> calls (snd (synthesize example_runtime (script [Rejected ''fetch failed'', Resolved mp3_answer]) example_body)) \<and>
   list_all (\<lambda>e. e = Delay 1000 \<or>
       e = GenerateContent
             \<lparr>param_model = ''gemini-2.5-pro-preview-tts'',
              param_text =
                ''Speak in a soft whisper, very slow rhythm, long pauses between phrases, and a warm tone like ASMR: Hello'',
              param_responseModalities = [''AUDIO''],
              param_voiceName = voiceName ''en'' male\<rparr>)
     (snd (synthesize example_runtime (script [Rejected ''fetch failed'', Resolved mp3_answer])
             \<lparr>req_text = Some ''Hello'', req_gender = Some male, req_contentLanguage = Some ''en''\<rparr>)) \<and>
   synthesize example_runtime
     (\<lambda>n p. if param_text p = ''Hola'' then Rejected ''no style'' else script [Resolved mp3_answer] n p)
     example_body =
   synthesize example_runtime (script [Resolved mp3_answer]) example_body"
proof -
  have t: "req_text example_body = Some ''Hola''" "''Hola'' \<noteq> []"
    by simp_all
  note w = style_prefix [OF t, of example_runtime "script [Rejected ''fetch failed'', Resolved mp3_answer]"]
  from w [THEN conjunct2, THEN conjunct1]
  have a: "\<forall>e \<in> set (snd (synthesize example_runtime
                     (script [Rejected ''fetch failed'', Resolved mp3_answer]) example_body)).
       e = Delay 1000 \<or>
       e = GenerateContent
             \<lparr>param_model = ''gemini-2.5-pro-preview-tts'',
              param_text =
                ''Habla en un susurro suave y cercano, con un ritmo muy lento, pausas prolongadas entre frases y un tono c''
                @ [CHR 0xC3, CHR 0xA1] @ ''lido tipo ASMR: Hola'',
              param_responseModalities = [''AUDIO''],
              param_voiceName = voiceName ''es-latam'' female\<rparr>"
    by simp
  from w [THEN conjunct2, THEN conjunct2, THEN conjunct1]
  have b: "1 \<le> calls (snd (synthesize example_runtime
                     (script [Rejected ''fetch failed'', Resolved mp3_answer]) example_body))" .
  have t': "req_text \<lparr>req_text = Some ''Hello'', req_gender = Some male, req_contentLanguage = Some ''en''\<rparr> = Some ''Hello''"
    "''Hello'' \<noteq> []"
    by simp_all
  note w' = style_prefix [OF t', of example_runtime "script [Rejected ''fetch failed'', Resolved mp3_answer]"]
  from w' [THEN conjunct2, THEN conjunct1]
  have c: "\<forall>e \<in> set (snd (synthesize example_runtime
                     (script [Rejected ''fetch failed'', Resolved mp3_answer])
                     \<lparr>req_text = Some ''Hello'', req_gender = Some male, req_contentLanguage = Some ''en''\<rparr>)).
       e = Delay 1000 \<or>
       e = GenerateContent
             \<lparr>param_model = ''gemini-2.5-pro-preview-tts'',
              param_text =
                ''Speak in a soft whisper, very slow rhythm, long pauses between phrases, and a warm tone like ASMR: Hello'',
              param_responseModalities = [''AUDIO''],
              param_voiceName = voiceName ''en'' male\<rparr>"
    by (simp add: body_contentLanguage_def body_gender_def)
  note w'' = style_prefix [OF t, of example_runtime "script [Resolved mp3_answer]"]
  from w'' [THEN conjunct2, THEN conjunct2, THEN conjunct2, rule_format,
      of "\<lambda>n p. if param_text p = ''Hola'' then Rejected ''no style'' else script [Resolved mp3_answer] n p"]
  have d: "synthesize example_runtime
     (\<lambda>n p. if param_text p = ''Hola'' then Rejected ''no style'' else script [Resolved mp3_answer] n p)
     example_body =
   synthesize example_runtime (script [Resolved mp3_answer]) example_body"
    by simp
  from a b c d show ?thesis by (simp add: list_all_iff)
qed

text \<open>
  Claim C9. When the first inline part has data and no MIME type, the handler takes the
  type to be \<^verbatim>\<open>audio/L16;rate=24000\<close>: the payload is WAV-encoded and returned with
  the type \<^verbatim>\<open>audio/wav\<close>.
\<close>

theorem missing_mime_default:
  assumes "ai n (request_params fullText voice) = Resolved response"
    and "find_audio response = Inr (raw, None)"
    and "length (base64_decode rt raw) + 36 \<le> 4294967295"
  shows "encode_audio rt raw None = encode_audio rt raw (Some ''audio/L16;rate=24000'') \<and>
         try_block rt ai n fullText voice lang =
           Some (Inr (Synthesis_body
             (base64_encode rt (wav_header (length (base64_decode rt raw)) @ base64_decode rt raw))
             ''audio/wav'' voice lang))"
proof -
  have "encode_audio rt raw None =
          Inr (base64_encode rt (wav_header (length (base64_decode rt raw)) @ base64_decode rt raw),
               ''audio/wav'')"
    using encode_audio_pcm [of "''audio/L16;rate=24000''" rt raw] assms(3)
    by (simp add: encode_audio_default)
  with assms(1,2) show ?thesis
    by (simp add: try_block_resolved encode_audio_default)
qed

text \<open>
  The theorem at an answer whose only part has the data \<^verbatim>\<open>AQID\<close> and no type.
\<close>

theorem missing_mime_default_witness:
  "try_block example_runtime
     (script [Resolved (answer_with [Part (Some (InlineData (Some ''AQID'') None))])])
     1 ''Hola'' ''Aoede'' ''en'' =
   Some (Inr (Synthesis_body (rfc4648_encode (wav_header 3 @ [1, 2, 3])) ''audio/wav'' ''Aoede'' ''en''))"
proof -
  have a: "script [Resolved (answer_with [Part (Some (InlineData (Some ''AQID'') None))])] 1
             (request_params ''Hola'' ''Aoede'') =
           Resolved (answer_with [Part (Some (InlineData (Some ''AQID'') None))])"
    by simp
  have f: "find_audio (answer_with [Part (Some (InlineData (Some ''AQID'') None))]) = Inr (''AQID'', None)"
    by (simp add: find_audio_def answer_with_def)
  have l: "length (base64_decode example_runtime ''AQID'') + 36 \<le> 4294967295"
    by (simp add: decode_AQID)
  from missing_mime_default [where ai = "script [Resolved (answer_with [Part (Some (InlineData (Some ''AQID'') None))])]"
        and n = 1 and rt = example_runtime and lang = "''en''", OF a f l]
  show ?thesis
    by (simp add: decode_AQID numeral_3_eq_3)
qed

text \<open>
  Claim C10. Only the first candidate of an answer is read, and of its parts the first
  one with \<^verbatim>\<open>inlineData\<close>. When that part has no data the attempt fails, also when a
  later part or a later candidate has audio data; as a first attempt it is followed by
  the wait and the second call.
\<close>

theorem first_inline_only:
  "find_audio (GenerateResponse (Some (c # cs))) = find_audio (GenerateResponse (Some [c])) \<and>
   ((\<forall>p \<in> set pre. inlineData p = None) \<longrightarrow>
      find_audio (GenerateResponse (Some
        (Candidate (Some (Content (Some (pre @ Part (Some idata) # post)))) # cs))) =
      (case data idata of
         None \<Rightarrow> Inl ''No audio data found in response''
       | Some d \<Rightarrow> if d = [] then Inl ''No audio data found in response''
                   else Inr (d, mimeType idata))) \<and>
   ((\<forall>p \<in> set pre. inlineData p = None) \<and> data idata = None \<and>
    req_text body = Some text' \<and> text' \<noteq> [] \<and>
    ai 1 (request_params (stylePrompt (body_contentLanguage body) @ '' '' @ text')
            (voiceName (body_contentLanguage body) (body_gender body))) =
      Resolved (GenerateResponse (Some
        (Candidate (Some (Content (Some (pre @ Part (Some idata) # post)))) # cs))) \<longrightarrow>
      try_block rt ai 1 (stylePrompt (body_contentLanguage body) @ '' '' @ text')
        (voiceName (body_contentLanguage body) (body_gender body)) (body_contentLanguage body) =
        Some (Inl ''No audio data found in response'') \<and>
      snd (synthesize rt ai body) =
        [GenerateContent (request_params (stylePrompt (body_contentLanguage body) @ '' '' @ text')
            (voiceName (body_contentLanguage body) (body_gender body))),
         Delay 1000,
         GenerateContent (request_params (stylePrompt (body_contentLanguage body) @ '' '' @ text')
            (voiceName (body_contentLanguage body) (body_gender body)))])"
proof -
  have 1: "find_audio (GenerateResponse (Some (c # cs))) = find_audio (GenerateResponse (Some [c]))"
    by (simp add: find_audio_def)
  have 2: "find_audio (GenerateResponse (Some
        (Candidate (Some (Content (Some (pre @ Part (Some idata) # post)))) # cs))) =
      (case data idata of
         None \<Rightarrow> Inl ''No audio data found in response''
       | Some d \<Rightarrow> if d = [] then Inl ''No audio data found in response''
                   else Inr (d, mimeType idata))"
    if "\<forall>p \<in> set pre. inlineData p = None"
    using that by (simp add: find_audio_def find_first_inline del: not_None_eq split: option.split)
  have 3: "try_block rt ai 1 (stylePrompt (body_contentLanguage body) @ '' '' @ text')
        (voiceName (body_contentLanguage body) (body_gender body)) (body_contentLanguage body) =
        Some (Inl ''No audio data found in response'') \<and>
      snd (synthesize rt ai body) =
        [GenerateContent (request_params (stylePrompt (body_contentLanguage body) @ '' '' @ text')
            (voiceName (body_contentLanguage body) (body_gender body))),
         Delay 1000,
         GenerateContent (request_params (stylePrompt (body_contentLanguage body) @ '' '' @ text')
            (voiceName (body_contentLanguage body) (body_gender body)))]"
    if pre: "\<forall>p \<in> set pre. inlineData p = None" and none: "data idata = None"
      and nonempty: "req_text body = Some text'" "text' \<noteq> []"
      and answer: "ai 1 (request_params (stylePrompt (body_contentLanguage body) @ '' '' @ text')
            (voiceName (body_contentLanguage body) (body_gender body))) =
        Resolved (GenerateResponse (Some
          (Candidate (Some (Content (Some (pre @ Part (Some idata) # post)))) # cs)))"
  proof -
    have f: "find_audio (GenerateResponse (Some
          (Candidate (Some (Content (Some (pre @ Part (Some idata) # post)))) # cs))) =
        Inl ''No audio data found in response''"
      using 2 [OF pre] none by simp
    have "attempt_fails rt (ai 1 (request_params (stylePrompt (body_contentLanguage body) @ '' '' @ text')
            (voiceName (body_contentLanguage body) (body_gender body))))"
      using answer by (simp add: attempt_fails_def f)
    from first_failure_retries [where rt = rt and ai = ai, OF nonempty this] answer show ?thesis
      by (simp add: try_block_outcome f)
  qed
  from 1 2 3 show ?thesis by blast
qed

text \<open>
  The theorem at an answer whose second part has \<^verbatim>\<open>inlineData\<close> without data, and
  whose third part and second candidate have audio data.
\<close>

theorem first_inline_only_witness:
  "find_audio hollow_answer = Inl ''No audio data found in response'' \<and>
   snd (synthesize example_runtime (script [Resolved hollow_answer, Resolved mp3_answer]) example_body) =
     [GenerateContent (request_params (stylePrompt ''es-latam'' @ '' '' @ ''Hola'') (voiceName ''es-latam'' female)),
      Delay 1000,
      GenerateContent (request_params (stylePrompt ''es-latam'' @ '' '' @ ''Hola'') (voiceName ''es-latam'' female))]"
proof -
  note w = first_inline_only [where pre = "[Part None]" and idata = "InlineData None (Some ''audio/mpeg'')"
      and post = "[Part (Some (InlineData (Some ''SUQz'') (Some ''audio/mpeg'')))]"
      and cs = "[Candidate (Some (Content (Some
          [Part (Some (InlineData (Some ''SUQz'') (Some ''audio/mpeg'')))])))]"
      and body = example_body and text' = "''Hola''" and c = "Candidate None"
      and ai = "script [Resolved hollow_answer, Resolved mp3_answer]" and rt = example_runtime]
  have hyp: "(\<forall>p \<in> set [Part None]. inlineData p = None) \<and>
      data (InlineData None (Some ''audio/mpeg'')) = None \<and>
      req_text example_body = Some ''Hola'' \<and> ''Hola'' \<noteq> [] \<and>
      script [Resolved hollow_answer, Resolved mp3_answer] 1
        (request_params (stylePrompt (body_contentLanguage example_body) @ '' '' @ ''Hola'')
            (voiceName (body_contentLanguage example_body) (body_gender example_body))) =
      Resolved (GenerateResponse (Some
        (Candidate (Some (Content (Some ([Part None] @ Part (Some (InlineData None (Some ''audio/mpeg'')))
           # [Part (Some (InlineData (Some ''SUQz'') (Some ''audio/mpeg'')))])))) #
         [Candidate (Some (Content (Some
          [Part (Some (InlineData (Some ''SUQz'') (Some ''audio/mpeg'')))])))])))"
    by (simp add: hollow_answer_def)
  from w hyp have "snd (synthesize example_runtime (script [Resolved hollow_answer, Resolved mp3_answer])
        example_body) =
      [GenerateContent (request_params (stylePrompt (body_contentLanguage example_body) @ '' '' @ ''Hola'')
            (voiceName (body_contentLanguage example_body) (body_gender example_body))),
       Delay 1000,
       GenerateContent (request_params (stylePrompt (body_contentLanguage example_body) @ '' '' @ ''Hola'')
            (voiceName (body_contentLanguage example_body) (body_gender example_body)))]"
    by blast
  then show ?thesis by simp
qed

end
